theory Spec2Isabelle
  imports Main "HOL-Library.Sublist"
begin

section \<open>Python strings\<close>

text \<open>
  A Python \<open>str\<close> is modelled as a \<open>string\<close> whose characters are the code points below
  256. \<open>str.isspace\<close> and the regular-expression class \<open>\s\<close> agree on these code points:
  they hold for 0x09..0x0D, 0x1C..0x20, 0x85 and 0xA0.
\<close>

definition py_isspace :: "char \<Rightarrow> bool" where
  "py_isspace c =
     (let n = (of_char c :: nat)
      in (9 \<le> n \<and> n \<le> 13) \<or> (28 \<le> n \<and> n \<le> 32) \<or> n = 133 \<or> n = 160)"

definition py_lstrip :: "string \<Rightarrow> string" where
  "py_lstrip s = dropWhile py_isspace s"

definition py_rstrip :: "string \<Rightarrow> string" where
  "py_rstrip s = rev (dropWhile py_isspace (rev s))"

text \<open>\<open>s.strip()\<close> with no argument.\<close>

definition py_strip :: "string \<Rightarrow> string" where
  "py_strip s = py_rstrip (py_lstrip s)"

section \<open>Fence stripping (gemini\_viz.py, lines 54 to 56 and 82 to 84)\<close>

text \<open>
  \<^verbatim>\<open>re.sub(r"^```json\s*|\s*```$", "", s)\<close> replaces every leftmost non-overlapping match.
  The first alternative is anchored by \<open>^\<close> and can match at position 0 only; its greedy
  \<open>\s*\<close> takes all the whitespace that follows the marker. The second alternative matches
  at position \<open>i\<close> when the rest of the string is whitespace followed by three backticks
  at the end of the string; without the MULTILINE flag \<open>$\<close> also matches just before a
  final newline, which then stays in the output.
\<close>

definition fence_open :: string where
  \<open>fence_open = ''```json''\<close>

definition fence_close :: string where
  \<open>fence_close = ''```''\<close>

fun scan_close :: "string \<Rightarrow> string" where
  "scan_close [] = []"
| "scan_close (c # cs) =
     (if dropWhile py_isspace (c # cs) = fence_close then []
      else if dropWhile py_isspace (c # cs) = fence_close @ [CHR 0x0A] then [CHR 0x0A]
      else c # scan_close cs)"

definition re_sub_fence :: "string \<Rightarrow> string" where
  "re_sub_fence s =
     (if prefix fence_open s
      then scan_close (dropWhile py_isspace (drop (length fence_open) s))
      else scan_close s)"

text \<open>
  \<^verbatim>\<open>raw = response.text.strip(); clean_output = re.sub(..., "", raw.strip())\<close>
\<close>

definition clean_output :: "string \<Rightarrow> string" where
  "clean_output text = re_sub_fence (py_strip (py_strip text))"

section \<open>JSON values and the operations Python applies to them\<close>

text \<open>
  The value \<open>json.loads\<close> returns: \<open>None\<close>, \<open>bool\<close>, \<open>int\<close>, \<open>float\<close> (a dyadic
  \<open>m * 2^e\<close>), \<open>str\<close>, \<open>list\<close> and \<open>dict\<close> (insertion ordered, as an association list).
\<close>

datatype json =
    JNull
  | JBool bool
  | JInt int
  | JFloat int int
  | JString string
  | JArray "json list"
  | JObject "(string \<times> json) list"

text \<open>
  The exception classes that occur. All of them derive from \<open>Exception\<close>; \<open>OtherError\<close>
  stands for any further subclass of \<open>Exception\<close> a library call may raise. The string is
  what \<open>str(e)\<close> returns.
\<close>

datatype exn =
    ModuleNotFoundError string
  | JSONDecodeError string
  | TypeError string
  | KeyError string
  | ValueError string
  | IndexError string
  | OtherError string

fun exn_str :: "exn \<Rightarrow> string" where
  "exn_str (ModuleNotFoundError m) = m"
| "exn_str (JSONDecodeError m) = m"
| "exn_str (TypeError m) = m"
| "exn_str (KeyError m) = m"
| "exn_str (ValueError m) = m"
| "exn_str (IndexError m) = m"
| "exn_str (OtherError m) = m"

text \<open>A name between single quotes, as \<open>repr\<close> writes it.\<close>

definition quoted :: "string \<Rightarrow> string" where
  "quoted s = [CHR 0x27] @ s @ [CHR 0x27]"

text \<open>\<open>v[key]\<close> with a string key.\<close>

fun getitem :: "json \<Rightarrow> string \<Rightarrow> exn + json" where
  "getitem (JObject kvs) k =
     (case map_of kvs k of
        None \<Rightarrow> Inl (KeyError (quoted k))
      | Some v \<Rightarrow> Inr v)"
| "getitem (JArray xs) k = Inl (TypeError ''list indices must be integers or slices, not str'')"
| "getitem (JString s) k = Inl (TypeError (''string indices must be integers, not '' @ quoted ''str''))"
| "getitem JNull k = Inl (TypeError (quoted ''NoneType'' @ '' object is not subscriptable''))"
| "getitem (JBool b) k = Inl (TypeError (quoted ''bool'' @ '' object is not subscriptable''))"
| "getitem (JInt i) k = Inl (TypeError (quoted ''int'' @ '' object is not subscriptable''))"
| "getitem (JFloat m e) k = Inl (TypeError (quoted ''float'' @ '' object is not subscriptable''))"

text \<open>\<open>for dp in v\<close>: the elements of a list, the keys of a dict, the characters of a str.\<close>

fun py_iter :: "json \<Rightarrow> exn + json list" where
  "py_iter (JArray xs) = Inr xs"
| "py_iter (JObject kvs) = Inr (map (\<lambda>kv. JString (fst kv)) kvs)"
| "py_iter (JString s) = Inr (map (\<lambda>c. JString [c]) s)"
| "py_iter JNull = Inl (TypeError (quoted ''NoneType'' @ '' object is not iterable''))"
| "py_iter (JBool b) = Inl (TypeError (quoted ''bool'' @ '' object is not iterable''))"
| "py_iter (JInt i) = Inl (TypeError (quoted ''int'' @ '' object is not iterable''))"
| "py_iter (JFloat m e) = Inl (TypeError (quoted ''float'' @ '' object is not iterable''))"

text \<open>\<open>[dp[k] for dp in ds]\<close>: the first failing lookup raises.\<close>

fun collect :: "string \<Rightarrow> json list \<Rightarrow> exn + json list" where
  "collect k [] = Inr []"
| "collect k (d # ds) =
     (case getitem d k of
        Inl e \<Rightarrow> Inl e
      | Inr v \<Rightarrow> (case collect k ds of Inl e \<Rightarrow> Inl e | Inr vs \<Rightarrow> Inr (v # vs)))"

section \<open>Computations: output, exceptions, process exit\<close>

text \<open>
  What a run makes observable. \<open>Stdout j\<close> and \<open>Stderr j\<close> are a line
  \<open>json.dumps(j)\<close> printed to the stream; \<open>Traceback e\<close> is the traceback the interpreter
  writes to standard error for an uncaught exception; \<open>GenerateContent p\<close> is a call of
  \<open>model.generate_content(p)\<close>; \<open>FigureOpen\<close> and \<open>FigureClose\<close> are \<open>plt.figure\<close> and
  \<open>plt.close\<close>; \<open>Draw kind labels values title\<close> is the plotting of one chart.
\<close>

datatype event =
    Stdout json
  | Stderr json
  | Traceback exn
  | GenerateContent string
  | FigureOpen
  | FigureClose
  | Draw string "json list" "json list" json

text \<open>
  A statement returns, raises an exception, or raises \<open>SystemExit\<close> through \<open>sys.exit\<close>.
  \<open>SystemExit\<close> does not derive from \<open>Exception\<close>, so no handler of these scripts
  catches it.
\<close>

datatype 'a result = Return 'a | Raise exn | SysExit nat

type_synonym 'a comp = "event list \<times> 'a result"

definition ret :: "'a \<Rightarrow> 'a comp" where
  "ret v = ([], Return v)"

definition raise :: "exn \<Rightarrow> 'a comp" where
  "raise e = ([], Raise e)"

definition sys_exit :: "nat \<Rightarrow> 'a comp" where
  "sys_exit n = ([], SysExit n)"

definition emit :: "event \<Rightarrow> unit comp" where
  "emit ev = ([ev], Return ())"

definition lift :: "exn + 'a \<Rightarrow> 'a comp" where
  "lift r = (case r of Inl e \<Rightarrow> raise e | Inr v \<Rightarrow> ret v)"

text \<open>Sequencing: the second statement runs only when the first returns.\<close>

definition bind :: "'a comp \<Rightarrow> ('a \<Rightarrow> 'b comp) \<Rightarrow> 'b comp" where
  "bind m f =
     (case m of
        (tr, Return v) \<Rightarrow> (case f v of (tr', r) \<Rightarrow> (tr @ tr', r))
      | (tr, Raise e) \<Rightarrow> (tr, Raise e)
      | (tr, SysExit n) \<Rightarrow> (tr, SysExit n))"

text \<open>
  \<open>try: m except ...\<close>. The handler function returns \<open>None\<close> for an exception that no
  \<open>except\<close> clause matches. An exception raised inside a handler propagates.
\<close>

definition try_except :: "'a comp \<Rightarrow> (exn \<Rightarrow> 'a comp option) \<Rightarrow> 'a comp" where
  "try_except m h =
     (case m of
        (tr, Raise e) \<Rightarrow>
          (case h e of
             None \<Rightarrow> (tr, Raise e)
           | Some k \<Rightarrow> (case k of (tr', r) \<Rightarrow> (tr @ tr', r)))
      | (tr, Return v) \<Rightarrow> (tr, Return v)
      | (tr, SysExit n) \<Rightarrow> (tr, SysExit n))"

text \<open>
  The interpreter around the script: an uncaught exception writes a traceback to standard
  error and gives exit status 1, \<open>SystemExit(n)\<close> gives exit status \<open>n\<close>, a normal end
  gives 0.
\<close>

definition python_exit :: "unit comp \<Rightarrow> event list \<times> nat" where
  "python_exit m =
     (case m of
        (tr, Return u) \<Rightarrow> (tr, 0)
      | (tr, Raise e) \<Rightarrow> (tr @ [Traceback e], 1)
      | (tr, SysExit n) \<Rightarrow> (tr, n))"

text \<open>
  \<open>json.dumps(obj, **kw)\<close>: any keyword it does not know is passed on to
  \<open>JSONEncoder.__init__\<close>, which raises \<open>TypeError\<close>. The text it returns is represented
  by the value itself.
\<close>

definition json_dumps :: "json \<Rightarrow> string list \<Rightarrow> json comp" where
  "json_dumps obj kw =
     (case kw of
        [] \<Rightarrow> ret obj
      | k # ks \<Rightarrow>
          raise (TypeError (''JSONEncoder.__init__() got an unexpected keyword argument ''
                            @ quoted k)))"

text \<open>\<open>print(s)\<close> and \<open>print(s, file=sys.stderr)\<close>.\<close>

definition print_stdout :: "json \<Rightarrow> unit comp" where
  "print_stdout s = emit (Stdout s)"

definition print_stderr :: "json \<Rightarrow> unit comp" where
  "print_stderr s = emit (Stderr s)"

section \<open>The environment of a run\<close>

text \<open>
  Everything the scripts obtain from outside: the environment variable, whether the
  \<open>google.generativeai\<close> module can be imported, the model (its \<open>n\<close>-th call with a
  prompt raises, or returns a response whose \<open>text\<close> property raises or is a string),
  pandas (\<open>read_csv\<close> raises or gives \<open>df.head().to_string()\<close> and
  \<open>str(df.columns.tolist())\<close>), \<open>json.loads\<close> (\<open>Inl msg\<close> is \<open>JSONDecodeError(msg)\<close>),
  \<open>str\<close> of a parsed value that is not a string, and matplotlib/seaborn (the plotting
  calls of a chart raise or not; \<open>tight_layout\<close>, \<open>savefig\<close> and the base64 encoding raise
  or give the encoded image).
\<close>

record world =
  api_key :: "string option"
  genai_installed :: bool
  generate_content :: "nat \<Rightarrow> string \<Rightarrow> exn + (exn + string)"
  read_csv :: "string \<Rightarrow> exn + string \<times> string"
  json_loads :: "string \<Rightarrow> string + json"
  py_str :: "json \<Rightarrow> string"
  draw :: "string \<Rightarrow> json list \<Rightarrow> json list \<Rightarrow> json \<Rightarrow> exn option"
  savefig :: "json list \<Rightarrow> json list \<Rightarrow> json \<Rightarrow> exn + string"

text \<open>\<open>not os.environ.get("GEMINI_API_KEY")\<close>: true for an unset and for an empty variable.\<close>

definition key_missing :: "world \<Rightarrow> bool" where
  "key_missing w = (case api_key w of None \<Rightarrow> True | Some k \<Rightarrow> k = [])"

definition import_genai :: "world \<Rightarrow> unit comp" where
  "import_genai w =
     (if genai_installed w then ret ()
      else raise (ModuleNotFoundError (''No module named '' @ quoted ''google.generativeai'')))"

text \<open>\<open>model.generate_content(prompt).text\<close>, as the \<open>n\<close>-th call of the run.\<close>

definition model_text :: "world \<Rightarrow> nat \<Rightarrow> string \<Rightarrow> string comp" where
  "model_text w n prompt =
     bind (emit (GenerateContent prompt)) (\<lambda>u.
     bind (lift (generate_content w n prompt)) (\<lambda>response.
     lift response))"

definition loads :: "world \<Rightarrow> string \<Rightarrow> json comp" where
  "loads w s = (case json_loads w s of Inl msg \<Rightarrow> raise (JSONDecodeError msg) | Inr v \<Rightarrow> ret v)"

text \<open>A value interpolated into an f-string.\<close>

definition fmt :: "world \<Rightarrow> json \<Rightarrow> string" where
  "fmt w v = (case v of JString s \<Rightarrow> s | _ \<Rightarrow> py_str w v)"

text \<open>
  The two code points U+26A0 U+FE0F that open the message of the missing-module branch
  lie outside the character type; they are written as their UTF-8 bytes.
\<close>

definition module_not_found_msg :: string where
  "module_not_found_msg =
     [CHR 0xE2, CHR 0x9A, CHR 0xA0, CHR 0xEF, CHR 0xB8, CHR 0x8F]
     @ '' Gemini module not found. Skipping AI generation.''"

definition error_obj :: "string \<Rightarrow> json" where
  "error_obj msg = JObject [(''error'', JString msg)]"

section \<open>gemini\_viz.py\<close>

text \<open>
  \<^verbatim>\<open>print(json.dumps({"error": msg}, file=sys.stderr)); sys.exit(1)\<close>: the keyword \<open>file\<close>
  is an argument of \<open>json.dumps\<close>, and \<open>print\<close> has no \<open>file\<close> argument (lines 18, 24,
  36, 64, 90, 115 and 129).
\<close>

definition report_kw :: "string \<Rightarrow> 'a comp" where
  "report_kw msg =
     bind (json_dumps (error_obj msg) [''file'']) (\<lambda>s.
     bind (print_stdout s) (\<lambda>u.
     sys_exit 1))"

text \<open>
  \<^verbatim>\<open>print(json.dumps({"error": msg, "raw_output": raw}), file=sys.stderr); sys.exit(1)\<close>
  (lines 61 and 87).
\<close>

definition report_raw :: "string \<Rightarrow> string \<Rightarrow> 'a comp" where
  "report_raw msg raw =
     bind (json_dumps (JObject [(''error'', JString msg), (''raw_output'', JString raw)]) []) (\<lambda>s.
     bind (print_stderr s) (\<lambda>u.
     sys_exit 1))"

text \<open>Lines 13 to 25.\<close>

definition viz_setup :: "world \<Rightarrow> unit comp" where
  "viz_setup w =
     try_except
       (bind (import_genai w) (\<lambda>u.
          if key_missing w
          then report_kw ''GEMINI_API_KEY environment variable not set.''
          else ret ()))
       (\<lambda>e. case e of
               ModuleNotFoundError m \<Rightarrow> Some (report_kw module_not_found_msg)
             | _ \<Rightarrow> None)"

definition csv_description :: "string \<Rightarrow> string \<Rightarrow> string" where
  \<open>csv_description head_str columns =
     ''CSV Data Description:\<newline>'' @ head_str @
     ''... (truncated)\<newline>'' @
     ''Columns: '' @ columns @
     ''\<newline>'' @
     ''\<newline>'' @
     ''Based on this CSV data, what would be the best chart type (bar, pie, or line) to visualize key insights, and what would be a concise (<=50 words) optimized summarization prompt to extract data points for that chart?''\<close>

text \<open>Lines 28 to 37: the text given to Stage 1.\<close>

definition viz_text_to_process :: "world \<Rightarrow> string \<Rightarrow> bool \<Rightarrow> string comp" where
  "viz_text_to_process w input_data is_csv =
     (if is_csv
      then try_except
             (bind (lift (read_csv w input_data)) (\<lambda>df.
                ret (csv_description (fst df) (snd df))))
             (\<lambda>e. Some (report_kw (''Failed to read CSV data: '' @ exn_str e)))
      else ret input_data)"

definition meta_prompt_system :: string where
  \<open>meta_prompt_system =
     ''\<newline>'' @
     ''      You are a meta-prompt generator.\<newline>'' @
     ''      Your job is to analyze input text/data and decide:\<newline>'' @
     ''      1. The best chart type to visualize it (bar, pie, or line).\<newline>'' @
     ''      2. A concise (<=50 words) optimized summarization prompt.\<newline>'' @
     ''      Respond in this JSON format:\<newline>'' @
     ''      {\<newline>'' @
     ''        "chart_type_suggestion": "<bar|pie|line>",\<newline>'' @
     ''        "optimized_prompt": "<prompt text>"\<newline>'' @
     ''      }\<newline>'' @
     ''    ''\<close>

definition stage1_prompt :: "string \<Rightarrow> string" where
  \<open>stage1_prompt text_to_process =
     meta_prompt_system @ ''\<newline>'' @ ''TEXT: '' @ text_to_process\<close>

text \<open>
  The handlers of lines 60 to 65. \<open>raw\<close> is the value of \<open>raw_meta_output\<close> when the
  exception is raised.
\<close>

definition stage1_handler :: "string \<Rightarrow> exn \<Rightarrow> 'a comp option" where
  "stage1_handler raw e =
     (case e of
        JSONDecodeError m \<Rightarrow>
          Some (report_raw (''Failed to parse meta-prompt JSON from Gemini: '' @ exn_str e) raw)
      | _ \<Rightarrow> Some (report_kw (''Failed to generate meta-prompt: '' @ exn_str e)))"

text \<open>
  Lines 51 to 65; the result is \<open>(chart_type, optimized_prompt)\<close>. The one \<open>try\<close> block is
  written as two, because its handlers read \<open>raw_meta_output\<close>, which is \<open>""\<close> until line
  54 has assigned it; no handler returns, so the two forms agree.
\<close>

definition stage1 :: "world \<Rightarrow> string \<Rightarrow> (json \<times> json) comp" where
  "stage1 w text_to_process =
     bind (try_except (model_text w 0 (stage1_prompt text_to_process)) (stage1_handler [])) (\<lambda>text.
     let raw_meta_output = py_strip text in
     try_except
       (bind (loads w (re_sub_fence (py_strip raw_meta_output))) (\<lambda>meta_output.
        bind (lift (getitem meta_output ''chart_type_suggestion'')) (\<lambda>chart_type.
        bind (lift (getitem meta_output ''optimized_prompt'')) (\<lambda>optimized_prompt.
        ret (chart_type, optimized_prompt)))))
       (stage1_handler raw_meta_output))"

definition data_extraction_system :: string where
  \<open>data_extraction_system =
     ''\<newline>'' @
     ''      You are a summarization model that outputs JSON for chart visualization.\<newline>'' @
     ''      You will receive a user prompt (guiding instruction) and a long text/data.\<newline>'' @
     ''      Return data in this exact structure:\<newline>'' @
     ''      {\<newline>'' @
     ''        "title": "<short summary title>",\<newline>'' @
     ''        "data_points": [\<newline>'' @
     ''          {"label": "<category/topic>", "value": <number>, "summary": "<one-line summary>"}\<newline>'' @
     ''        ]\<newline>'' @
     ''      }\<newline>'' @
     ''    ''\<close>

definition stage2_prompt :: "string \<Rightarrow> string \<Rightarrow> string" where
  \<open>stage2_prompt optimized_prompt input_data =
     data_extraction_system @ ''\<newline>'' @ ''PROMPT: '' @ optimized_prompt @
     ''\<newline>'' @ ''TEXT/DATA: '' @ input_data\<close>

definition stage2_handler :: "string \<Rightarrow> exn \<Rightarrow> 'a comp option" where
  "stage2_handler raw e =
     (case e of
        JSONDecodeError m \<Rightarrow>
          Some (report_raw (''Failed to parse chart data JSON from Gemini: '' @ exn_str e) raw)
      | _ \<Rightarrow> Some (report_kw (''Failed to extract chart data: '' @ exn_str e)))"

text \<open>Lines 79 to 91; the result is \<open>chart_data\<close>.\<close>

definition stage2 :: "world \<Rightarrow> json \<Rightarrow> string \<Rightarrow> json comp" where
  "stage2 w optimized_prompt input_data =
     bind (try_except
             (model_text w 1 (stage2_prompt (fmt w optimized_prompt) input_data))
             (stage2_handler [])) (\<lambda>text.
     let raw_chart_data_output = py_strip text in
     try_except
       (loads w (re_sub_fence (py_strip raw_chart_data_output)))
       (stage2_handler raw_chart_data_output))"

text \<open>The plotting calls of one branch of lines 100 to 113.\<close>

definition plot :: "world \<Rightarrow> string \<Rightarrow> json list \<Rightarrow> json list \<Rightarrow> json \<Rightarrow> unit comp" where
  "plot w kind labels vals title =
     bind (emit (Draw kind labels vals title)) (\<lambda>u.
     case draw w kind labels vals title of None \<Rightarrow> ret () | Some e \<Rightarrow> raise e)"

text \<open>
  Lines 94 to 130. \<open>savefig\<close> stands for lines 119 to 123: \<open>tight_layout\<close>, \<open>savefig\<close> and
  the base64 encoding of the figure that was drawn.
\<close>

definition stage3 :: "world \<Rightarrow> json \<Rightarrow> json \<Rightarrow> json comp" where
  "stage3 w chart_type chart_data =
     bind (emit FigureOpen) (\<lambda>u.
     try_except
       (bind (lift (getitem chart_data ''data_points'')) (\<lambda>dps.
        bind (lift (py_iter dps)) (\<lambda>ds.
        bind (lift (collect ''label'' ds)) (\<lambda>labels.
        bind (lift (getitem chart_data ''data_points'')) (\<lambda>dps'.
        bind (lift (py_iter dps')) (\<lambda>ds'.
        bind (lift (collect ''value'' ds')) (\<lambda>vals.
        bind (lift (getitem chart_data ''title'')) (\<lambda>title.
        bind (if chart_type = JString ''bar'' then plot w ''bar'' labels vals title
              else if chart_type = JString ''pie'' then plot w ''pie'' labels vals title
              else if chart_type = JString ''line'' then plot w ''line'' labels vals title
              else report_kw (''Unsupported chart type: '' @ fmt w chart_type)) (\<lambda>u.
        bind (lift (savefig w labels vals title)) (\<lambda>image_base64.
        bind (emit FigureClose) (\<lambda>u.
        ret (JObject [(''image'', JString image_base64), (''title'', title)]))))))))))))
       (\<lambda>e. Some (bind (emit FigureClose) (\<lambda>u.
                  report_kw (''Failed to render chart: '' @ exn_str e)))))"

definition generate_visualization :: "world \<Rightarrow> string \<Rightarrow> bool \<Rightarrow> json comp" where
  "generate_visualization w input_data is_csv =
     bind (viz_setup w) (\<lambda>u.
     bind (viz_text_to_process w input_data is_csv) (\<lambda>text_to_process.
     bind (stage1 w text_to_process) (\<lambda>s1.
     bind (stage2 w (snd s1) input_data) (\<lambda>chart_data.
     stage3 w (fst s1) chart_data))))"

text \<open>Lines 133 to 140, after the arguments are parsed.\<close>

definition viz_main :: "world \<Rightarrow> string \<Rightarrow> bool \<Rightarrow> event list \<times> nat" where
  "viz_main w input_data is_csv =
     python_exit
       (bind (generate_visualization w input_data is_csv) (\<lambda>result.
        bind (json_dumps result []) (\<lambda>s.
        print_stdout s)))"

section \<open>gemini\_qa.py\<close>

text \<open>\<^verbatim>\<open>print(json.dumps({"error": msg}), file=sys.stderr); sys.exit(1)\<close>\<close>

definition report :: "string \<Rightarrow> 'a comp" where
  "report msg =
     bind (json_dumps (error_obj msg) []) (\<lambda>s.
     bind (print_stderr s) (\<lambda>u.
     sys_exit 1))"

definition qa_prompt :: "bool \<Rightarrow> string \<Rightarrow> string \<Rightarrow> string" where
  \<open>qa_prompt is_csv input_data question =
     (let context_prefix = (if \<not> is_csv then ''Text'' else ''CSV Data'') in
      ''\<newline>'' @
      ''          You are a helpful assistant. Answer the user's question based ONLY on the provided '' @
      context_prefix @ ''. If the answer is not in the '' @ context_prefix @
      '', state that you don't know.\<newline>'' @
      ''\<newline>'' @
      ''          '' @ context_prefix @ '': '' @ input_data @
      ''\<newline>'' @
      ''          Question: '' @ question @
      ''\<newline>'' @
      ''          Answer:\<newline>'' @
      ''          '')\<close>

text \<open>Lines 6 to 35.\<close>

definition answer_question :: "world \<Rightarrow> string \<Rightarrow> string \<Rightarrow> bool \<Rightarrow> json comp" where
  "answer_question w input_data question is_csv =
     try_except
       (bind (import_genai w) (\<lambda>u.
          if key_missing w
          then report ''GEMINI_API_KEY environment variable not set.''
          else
            try_except
              (bind (model_text w 0 (qa_prompt is_csv input_data question)) (\<lambda>text.
                 ret (JObject [(''answer'', JString (py_strip text))])))
              (\<lambda>e. Some (report (exn_str e)))))
       (\<lambda>e. case e of
               ModuleNotFoundError m \<Rightarrow> Some (report module_not_found_msg)
             | _ \<Rightarrow> None)"

text \<open>Lines 37 to 45, after the arguments are parsed.\<close>

definition qa_main :: "world \<Rightarrow> string \<Rightarrow> string \<Rightarrow> bool \<Rightarrow> event list \<times> nat" where
  "qa_main w input_data question is_csv =
     python_exit
       (bind (answer_question w input_data question is_csv) (\<lambda>result.
        bind (json_dumps result []) (\<lambda>s.
        print_stdout s)))"

section \<open>nano-summarizer-website/gemini\_qa.py\<close>

text \<open>
  \<open>template.format(**kw)\<close> for a template whose replacement fields are plain names: the
  template is read from left to right, \<open>{{\<close> and \<open>}}\<close> give one brace, a field \<open>{name}\<close>
  is replaced by the keyword argument of that name, and the inserted text is not read
  again. The second argument is the text of the replacement field that is being read.
  A field is looked up by its whole text; conversions, format specifications, attribute
  and index access are not distinguished.
\<close>

definition format_field :: "(string \<rightharpoonup> string) \<Rightarrow> string \<Rightarrow> exn + string" where
  "format_field kw name =
     (if list_all (\<lambda>c. c \<in> set ''0123456789'') name
      then Inl (IndexError ''Replacement index out of range for positional args tuple'')
      else case kw name of
             None \<Rightarrow> Inl (KeyError (quoted name))
           | Some v \<Rightarrow> Inr v)"

definition prepend :: "string \<Rightarrow> exn + string \<Rightarrow> exn + string" where
  "prepend s r = (case r of Inl e \<Rightarrow> Inl e | Inr t \<Rightarrow> Inr (s @ t))"

fun py_format :: "(string \<rightharpoonup> string) \<Rightarrow> string option \<Rightarrow> string \<Rightarrow> exn + string" where
  "py_format kw None [] = Inr []"
| "py_format kw None (c # cs) =
     (if c = CHR ''{'' then
        (case cs of
           [] \<Rightarrow> Inl (ValueError (''Single '' @ quoted ''{'' @ '' encountered in format string''))
         | d # ds \<Rightarrow>
             if d = CHR ''{'' then prepend ''{'' (py_format kw None ds)
             else py_format kw (Some []) cs)
      else if c = CHR ''}'' then
        (case cs of
           [] \<Rightarrow> Inl (ValueError (''Single '' @ quoted ''}'' @ '' encountered in format string''))
         | d # ds \<Rightarrow>
             if d = CHR ''}'' then prepend ''}'' (py_format kw None ds)
             else Inl (ValueError (''Single '' @ quoted ''}'' @ '' encountered in format string'')))
      else prepend [c] (py_format kw None cs))"
| "py_format kw (Some field) [] =
     Inl (ValueError (''expected '' @ quoted ''}'' @ '' before end of string''))"
| "py_format kw (Some field) (c # cs) =
     (if c = CHR ''}'' then
        (case format_field kw (rev field) of
           Inl e \<Rightarrow> Inl e
         | Inr v \<Rightarrow> prepend v (py_format kw None cs))
      else py_format kw (Some (c # field)) cs)"

definition website_qa_template :: string where
  \<open>website_qa_template =
     ''\<newline>'' @
     ''      You are a helpful assistant. Answer the user's question based ONLY on the provided text. If the answer is not in the text, state that you don't know.\<newline>'' @
     ''\<newline>'' @
     ''      Text: {text}\<newline>'' @
     ''      Question: {question}\<newline>'' @
     ''      Answer:\<newline>'' @
     ''      ''\<close>

text \<open>\<open>answer_question(text, question)\<close>, lines 6 to 29.\<close>

definition website_answer_question :: "world \<Rightarrow> string \<Rightarrow> string \<Rightarrow> json comp" where
  "website_answer_question w text question =
     (if key_missing w
      then report ''GEMINI_API_KEY environment variable not set.''
      else
        try_except
          (bind (lift (py_format [''text'' \<mapsto> text, ''question'' \<mapsto> question] None
                         website_qa_template)) (\<lambda>prompt.
           bind (model_text w 0 prompt) (\<lambda>response_text.
           ret (JObject [(''answer'', JString (py_strip response_text))]))))
          (\<lambda>e. Some (report (exn_str e))))"

text \<open>
  The script from its first line: the import at line 2, then lines 31 to 39 with
  \<open>argv\<close> standing for \<open>sys.argv\<close>.
\<close>

definition website_main :: "world \<Rightarrow> string list \<Rightarrow> event list \<times> nat" where
  "website_main w argv =
     python_exit
       (bind (import_genai w) (\<lambda>u.
        if length argv < 3
        then report ''Text and question not provided for Q&A.''
        else
          bind (website_answer_question w (argv ! 1) (argv ! 2)) (\<lambda>result.
          bind (json_dumps result []) (\<lambda>s.
          print_stdout s))))"

text \<open>The template with the two fields replaced by \<open>text\<close> and \<open>question\<close>.\<close>

definition website_prompt :: "string \<Rightarrow> string \<Rightarrow> string" where
  \<open>website_prompt text question =
     ''\<newline>'' @
     ''      You are a helpful assistant. Answer the user's question based ONLY on the provided text. If the answer is not in the text, state that you don't know.\<newline>'' @
     ''\<newline>'' @
     ''      Text: '' @ text @ ''\<newline>'' @
     ''      Question: '' @ question @ ''\<newline>'' @
     ''      Answer:\<newline>'' @
     ''      ''\<close>

section \<open>Observations on a finished run\<close>

definition stdout_of :: "event list \<Rightarrow> json list" where
  "stdout_of tr = concat (map (\<lambda>ev. case ev of Stdout j \<Rightarrow> [j] | _ \<Rightarrow> []) tr)"

definition model_calls :: "event list \<Rightarrow> string list" where
  "model_calls tr = concat (map (\<lambda>ev. case ev of GenerateContent p \<Rightarrow> [p] | _ \<Rightarrow> []) tr)"

text \<open>What is written to standard error: printed lines and tracebacks.\<close>

fun is_stderr :: "event \<Rightarrow> bool" where
  "is_stderr (Stderr j) = True"
| "is_stderr (Traceback e) = True"
| "is_stderr ev = False"

definition stderr_of :: "event list \<Rightarrow> event list" where
  "stderr_of tr = filter is_stderr tr"

text \<open>A JSON object with an \<open>"error"\<close> key printed to standard error.\<close>

fun is_error_report :: "event \<Rightarrow> bool" where
  "is_error_report (Stderr (JObject kvs)) = (map_of kvs ''error'' \<noteq> None)"
| "is_error_report ev = False"

definition error_reports :: "event list \<Rightarrow> event list" where
  "error_reports tr = filter is_error_report tr"

fun is_draw :: "event \<Rightarrow> bool" where
  "is_draw (Draw kind labels vals title) = True"
| "is_draw ev = False"

definition draws :: "event list \<Rightarrow> event list" where
  "draws tr = filter is_draw tr"

text \<open>Whether a figure is open after the events, given whether one was open before.\<close>

fun figure_open_after :: "bool \<Rightarrow> event list \<Rightarrow> bool" where
  "figure_open_after b [] = b"
| "figure_open_after b (FigureOpen # tr) = figure_open_after True tr"
| "figure_open_after b (FigureClose # tr) = figure_open_after False tr"
| "figure_open_after b (ev # tr) = figure_open_after b tr"

text \<open>The exception of \<^verbatim>\<open>json.dumps(..., file=sys.stderr)\<close>.\<close>

definition file_kw_error :: exn where
  "file_kw_error =
     TypeError (''JSONEncoder.__init__() got an unexpected keyword argument '' @ quoted ''file'')"

text \<open>Every event of a computation satisfies \<open>Q\<close>.\<close>

definition only :: "(event \<Rightarrow> bool) \<Rightarrow> 'a comp \<Rightarrow> bool" where
  "only Q m = list_all Q (fst m)"

text \<open>A computation that ends in \<open>sys.exit\<close> has status 1 and wrote to standard error.\<close>

definition exits_reported :: "'a comp \<Rightarrow> bool" where
  "exits_reported m =
     (case snd m of SysExit n \<Rightarrow> n = 1 \<and> stderr_of (fst m) \<noteq> [] | _ \<Rightarrow> True)"

definition supported_chart_types :: "string list" where
  "supported_chart_types = [''bar'', ''pie'', ''line'']"

section \<open>Sample environments\<close>

definition sample_meta_json :: string where
  \<open>sample_meta_json =
     ''{"chart_type_suggestion": "bar", "optimized_prompt": "List sales per region"}''\<close>

definition sample_meta :: json where
  "sample_meta =
     JObject [(''chart_type_suggestion'', JString ''bar''),
              (''optimized_prompt'', JString ''List sales per region'')]"

definition sample_chart_json :: string where
  \<open>sample_chart_json =
     ''{"title": "Sales", "data_points": [{"label": "North", "value": 3, "summary": "up"}, {"label": "South", "value": 5, "summary": "flat"}]}''\<close>

definition sample_chart :: json where
  "sample_chart =
     JObject [(''title'', JString ''Sales''),
              (''data_points'',
               JArray [JObject [(''label'', JString ''North''), (''value'', JInt 3),
                                (''summary'', JString ''up'')],
                       JObject [(''label'', JString ''South''), (''value'', JInt 5),
                                (''summary'', JString ''flat'')]])]"

definition sample_loads :: "string \<Rightarrow> string + json" where
  "sample_loads s =
     (if s = sample_meta_json then Inr sample_meta
      else if s = sample_chart_json then Inr sample_chart
      else Inl ''Expecting value: line 1 column 1 (char 0)'')"

text \<open>A model that answers the first call with a fenced object and the second with a bare one.\<close>

definition sample_meta_response :: string where
  \<open>sample_meta_response =
     fence_open @ ''\<newline>'' @ sample_meta_json @ ''\<newline>'' @ fence_close\<close>

definition sample_generate :: "nat \<Rightarrow> string \<Rightarrow> exn + (exn + string)" where
  "sample_generate n p = Inr (Inr (if n = 0 then sample_meta_response else sample_chart_json))"

definition sample_world :: world where
  "sample_world =
     \<lparr> api_key = Some ''secret'',
       genai_installed = True,
       generate_content = sample_generate,
       read_csv = (\<lambda>s. Inl (OtherError ''Error tokenizing data'')),
       json_loads = sample_loads,
       py_str = (\<lambda>v. []),
       draw = (\<lambda>kind labels vals title. None),
       savefig = (\<lambda>labels vals title. Inr ''iVBORw0KGgo='') \<rparr>"

definition sample_input :: string where
  "sample_input = ''Sales: North 3, South 5''"

text \<open>The same environment without the environment variable.\<close>

definition no_key_world :: world where
  "no_key_world = sample_world \<lparr> api_key := None \<rparr>"

text \<open>A model that suggests a chart type the renderer does not know.\<close>

definition scatter_meta :: json where
  "scatter_meta =
     JObject [(''chart_type_suggestion'', JString ''scatter''),
              (''optimized_prompt'', JString ''List sales per region'')]"

definition scatter_loads :: "string \<Rightarrow> string + json" where
  "scatter_loads s = (if s = sample_meta_json then Inr scatter_meta else sample_loads s)"

definition scatter_world :: world where
  "scatter_world = sample_world \<lparr> json_loads := scatter_loads \<rparr>"

text \<open>
  An environment in which every text parses to an object that has all the expected keys,
  and every model call raises.
\<close>

definition complete_obj :: json where
  "complete_obj =
     JObject [(''chart_type_suggestion'', JString ''bar''),
              (''optimized_prompt'', JString ''List sales per region''),
              (''title'', JString ''Sales''),
              (''data_points'', JArray [JObject [(''label'', JString ''North''), (''value'', JInt 3)]])]"

definition always_parses :: "string \<Rightarrow> string + json" where
  "always_parses s = Inr complete_obj"

definition unavailable :: "nat \<Rightarrow> string \<Rightarrow> exn + (exn + string)" where
  "unavailable n p = Inl (OtherError ''503 Service Unavailable'')"

definition offline_world :: world where
  "offline_world = sample_world \<lparr> generate_content := unavailable, json_loads := always_parses \<rparr>"

text \<open>A model that answers a question.\<close>

definition paris :: "nat \<Rightarrow> string \<Rightarrow> exn + (exn + string)" where
  \<open>paris n p = Inr (Inr ''  Paris.\<newline>'')\<close>

definition qa_world :: world where
  "qa_world = sample_world \<lparr> generate_content := paris \<rparr>"

text \<open>The sample environment without the module, and with a renderer that raises.\<close>

definition no_module_world :: world where
  "no_module_world = sample_world \<lparr> genai_installed := False \<rparr>"

definition refusing_draw :: "string \<Rightarrow> json list \<Rightarrow> json list \<Rightarrow> json \<Rightarrow> exn option" where
  "refusing_draw kind labels vals title = Some (ValueError ''could not convert string to float'')"

definition broken_renderer_world :: world where
  "broken_renderer_world = sample_world \<lparr> draw := refusing_draw \<rparr>"

section \<open>Properties of fence stripping\<close>

lemma py_isspace_brace [simp]:
  "\<not> py_isspace (CHR ''{'')" "\<not> py_isspace (CHR ''}'')" "\<not> py_isspace (CHR 0x60)"
  by (simp_all add: py_isspace_def)

lemma dropWhile_all_space:
  "list_all py_isspace ws \<Longrightarrow> dropWhile py_isspace (ws @ t) = dropWhile py_isspace t"
  by (induction ws) auto

lemma dropWhile_keeps:
  "x \<in> set s \<Longrightarrow> \<not> P x \<Longrightarrow> x \<in> set (dropWhile P s)"
  by (induction s) auto

text \<open>No match of the closing alternative starts inside a text that ends with a brace.\<close>

lemma scan_close_through:
  "t \<noteq> [] \<Longrightarrow> last t = CHR ''}'' \<Longrightarrow> scan_close (t @ r) = t @ scan_close r"
proof (induction t)
  case Nil
  then show ?case by simp
next
  case (Cons c t)
  have mem: "CHR ''}'' \<in> set ((c # t) @ r)"
    using Cons.prems by (metis last_in_set set_append UnI1)
  have "CHR ''}'' \<in> set (dropWhile py_isspace ((c # t) @ r))"
    by (rule dropWhile_keeps [OF mem]) simp
  then have no: "dropWhile py_isspace ((c # t) @ r) \<noteq> fence_close"
    "dropWhile py_isspace ((c # t) @ r) \<noteq> fence_close @ [CHR 0x0A]"
    by (auto simp: fence_close_def)
  show ?case
  proof (cases "t = []")
    case True
    with no show ?thesis by simp
  next
    case False
    with Cons have "scan_close (t @ r) = t @ scan_close r" by simp
    with no show ?thesis by simp
  qed
qed

lemma scan_close_fence:
  "list_all py_isspace ws \<Longrightarrow> scan_close (ws @ fence_close) = []"
  by (cases ws) (simp_all add: dropWhile_all_space fence_close_def)

lemma py_strip_core:
  assumes "m \<noteq> []" "\<not> py_isspace (hd m)" "\<not> py_isspace (last m)"
    and "list_all py_isspace w1" "list_all py_isspace w2"
  shows "py_strip (w1 @ m @ w2) = m"
proof -
  have l: "dropWhile py_isspace (w1 @ m @ w2) = m @ w2"
    using assms by (cases m) (simp_all add: dropWhile_all_space)
  have "dropWhile py_isspace (rev w2 @ rev m) = rev m"
    using assms by (cases "rev m") (simp_all add: dropWhile_all_space last_rev hd_rev)
  with l show ?thesis by (simp add: py_strip_def py_lstrip_def py_rstrip_def)
qed

lemma py_strip_fixed:
  assumes "m \<noteq> []" "\<not> py_isspace (hd m)" "\<not> py_isspace (last m)"
  shows "py_strip m = m"
  using py_strip_core [OF assms, of "[]" "[]"] by simp

lemma clean_output_bare:
  assumes "t \<noteq> []" "hd t = CHR ''{''" "last t = CHR ''}''"
    and "list_all py_isspace w1" "list_all py_isspace w2"
  shows "clean_output (w1 @ t @ w2) = t"
proof -
  have s: "py_strip (w1 @ t @ w2) = t" "py_strip t = t"
    using assms by (simp_all add: py_strip_core py_strip_fixed)
  have "\<not> prefix fence_open t"
    using assms(1,2) by (cases t) (auto simp: fence_open_def)
  moreover have "scan_close t = t"
    using scan_close_through [OF assms(1,3), of "[]"] by simp
  ultimately show ?thesis by (simp add: clean_output_def s re_sub_fence_def)
qed

lemma clean_output_fenced:
  assumes "t \<noteq> []" "hd t = CHR ''{''" "last t = CHR ''}''"
    and "list_all py_isspace w1" "list_all py_isspace w2"
    and "list_all py_isspace w3" "list_all py_isspace w4"
  shows "clean_output (w1 @ fence_open @ w2 @ t @ w3 @ fence_close @ w4) = t"
proof -
  let ?m = "fence_open @ w2 @ t @ w3 @ fence_close"
  have m: "?m \<noteq> []" "\<not> py_isspace (hd ?m)" "\<not> py_isspace (last ?m)"
    by (simp_all add: fence_open_def fence_close_def)
  have "py_strip (w1 @ ?m @ w4) = ?m"
    by (rule py_strip_core [OF m assms(4,7)])
  then have s: "py_strip (py_strip (w1 @ fence_open @ w2 @ t @ w3 @ fence_close @ w4)) = ?m"
    using py_strip_fixed [OF m] by simp
  have d: "dropWhile py_isspace (w2 @ t @ w3 @ fence_close) = t @ w3 @ fence_close"
    using assms(1,2,5) by (cases t) (simp_all add: dropWhile_all_space)
  have "scan_close (t @ w3 @ fence_close) = t"
    using scan_close_through [OF assms(1,3), of "w3 @ fence_close"] scan_close_fence [OF assms(6)]
    by simp
  with d show ?thesis
    unfolding clean_output_def s re_sub_fence_def by (simp add: fence_open_def)
qed

text \<open>
  The opening alternative needs the \<open>json\<close> tag: an opening fence without it stays in
  the text.
\<close>

lemma untagged_fence_kept:
  \<open>clean_output (''```'' @ ''\<newline>'' @ ''{"a": 1}'' @ ''\<newline>'' @ ''```'')
     = ''```'' @ ''\<newline>'' @ ''{"a": 1}''\<close>
  by (simp add: clean_output_def re_sub_fence_def py_strip_def py_lstrip_def py_rstrip_def
        py_isspace_def fence_open_def fence_close_def)

text \<open>
  C1. A text \<open>t\<close> that \<open>json.loads\<close> reads as an object begins with \<open>{\<close> and ends with
  \<open>}\<close>. For every such text, surrounded by whitespace and either bare or wrapped in a
  \<^verbatim>\<open>```json\<close> ... \<^verbatim>\<open>```\<close> fence with whitespace around the markers, stripping, fence removal
  and \<open>json.loads\<close> give the object that \<open>t\<close> itself is read as.
\<close>

theorem fence_stripping_recovers_object:
  assumes "json_loads w t = Inr (JObject kvs)"
    and "t \<noteq> []" "hd t = CHR ''{''" "last t = CHR ''}''"
    and "list_all py_isspace w1" "list_all py_isspace w2"
    and "list_all py_isspace w3" "list_all py_isspace w4"
  shows "json_loads w (clean_output (w1 @ t @ w2)) = Inr (JObject kvs)
       \<and> json_loads w (clean_output (w1 @ fence_open @ w2 @ t @ w3 @ fence_close @ w4))
           = Inr (JObject kvs)"
  using assms by (simp add: clean_output_bare clean_output_fenced)

theorem fence_stripping_recovers_object_witness:
  \<open>json_loads sample_world sample_meta_json
      = Inr (JObject [(''chart_type_suggestion'', JString ''bar''),
                      (''optimized_prompt'', JString ''List sales per region'')])
   \<and> json_loads sample_world (clean_output ('' '' @ sample_meta_json @ ''\<newline>''))
      = Inr (JObject [(''chart_type_suggestion'', JString ''bar''),
                      (''optimized_prompt'', JString ''List sales per region'')])
   \<and> json_loads sample_world
        (clean_output ('' '' @ fence_open @ ''\<newline>'' @ sample_meta_json @ ''\<newline>''
                       @ fence_close @ ''\<newline>''))
      = Inr (JObject [(''chart_type_suggestion'', JString ''bar''),
                      (''optimized_prompt'', JString ''List sales per region'')])\<close>
proof -
  have l: "json_loads sample_world sample_meta_json
      = Inr (JObject [(''chart_type_suggestion'', JString ''bar''),
                      (''optimized_prompt'', JString ''List sales per region'')])"
    by (simp add: sample_world_def sample_loads_def sample_meta_def)
  have t: "sample_meta_json \<noteq> []" "hd sample_meta_json = CHR ''{''"
    "last sample_meta_json = CHR ''}''"
    by (simp_all add: sample_meta_json_def)
  have ws: "list_all py_isspace '' ''" \<open>list_all py_isspace ''\<newline>''\<close>
    by (simp_all add: py_isspace_def)
  show ?thesis
    using l fence_stripping_recovers_object [OF l t ws(1) ws(2) ws(2) ws(2)] by simp
qed

section \<open>Rules for computations\<close>

lemma bind_ret [simp]: "bind (ret v) f = f v"
  by (simp add: bind_def ret_def split: prod.splits)

lemma bind_raise [simp]: "bind (raise e) f = raise e"
  by (simp add: bind_def raise_def)

lemma bind_sys_exit [simp]: "bind (sys_exit n) f = sys_exit n"
  by (simp add: bind_def sys_exit_def)

lemma bind_emit: "bind (emit ev) f = (ev # fst (f ()), snd (f ()))"
  by (simp add: bind_def emit_def split: prod.splits)

lemma try_ret [simp]: "try_except (ret v) h = ret v"
  by (simp add: try_except_def ret_def)

lemma try_raise [simp]:
  "try_except (raise e) h = (case h e of None \<Rightarrow> raise e | Some k \<Rightarrow> k)"
  by (simp add: try_except_def raise_def split: option.splits prod.splits)

lemma comp_proj [simp]:
  "fst (ret v) = []" "snd (ret v) = Return v"
  "fst (raise e) = []" "snd (raise e) = Raise e"
  "fst (sys_exit n) = []" "snd (sys_exit n) = SysExit n"
  by (simp_all add: ret_def raise_def sys_exit_def)

lemma fst_lift [simp]: "fst (lift r) = []"
  by (simp add: lift_def split: sum.splits)

lemma bind_proj:
  "fst (bind m f) = (case snd m of Return v \<Rightarrow> fst m @ fst (f v) | _ \<Rightarrow> fst m)"
  "snd (bind m f) =
     (case snd m of Return v \<Rightarrow> snd (f v) | Raise e \<Rightarrow> Raise e | SysExit n \<Rightarrow> SysExit n)"
  by (cases m; simp add: bind_def split: result.splits prod.splits)+

lemma try_except_proj:
  "fst (try_except m h) =
     (case snd m of
        Raise e \<Rightarrow> (case h e of None \<Rightarrow> fst m | Some k \<Rightarrow> fst m @ fst k)
      | _ \<Rightarrow> fst m)"
  "snd (try_except m h) =
     (case snd m of
        Raise e \<Rightarrow> (case h e of None \<Rightarrow> Raise e | Some k \<Rightarrow> snd k)
      | r \<Rightarrow> r)"
  by (cases m; simp add: try_except_def split: result.splits option.splits prod.splits)+

lemma python_exit_proj:
  "fst (python_exit m) = (case snd m of Raise e \<Rightarrow> fst m @ [Traceback e] | _ \<Rightarrow> fst m)"
  "snd (python_exit m) = (case snd m of Return u \<Rightarrow> 0 | Raise e \<Rightarrow> 1 | SysExit n \<Rightarrow> n)"
  by (cases m; simp add: python_exit_def split: result.splits)+

text \<open>The three ways of reporting an error.\<close>

lemma report_kw_raises [simp]: "report_kw msg = raise file_kw_error"
  by (simp add: report_kw_def json_dumps_def file_kw_error_def)

lemma report_eq [simp]: "report msg = ([Stderr (error_obj msg)], SysExit 1)"
  by (simp add: report_def json_dumps_def print_stderr_def bind_emit sys_exit_def)

lemma report_raw_eq [simp]:
  "report_raw msg raw =
     ([Stderr (JObject [(''error'', JString msg), (''raw_output'', JString raw)])], SysExit 1)"
  by (simp add: report_raw_def json_dumps_def print_stderr_def bind_emit sys_exit_def)

lemma print_result_eq:
  "bind (json_dumps result []) print_stdout = ([Stdout result], Return ())"
  by (simp add: json_dumps_def print_stdout_def emit_def)

lemma model_text_eq:
  "model_text w n p =
     (case generate_content w n p of
        Inl e \<Rightarrow> ([GenerateContent p], Raise e)
      | Inr (Inl e) \<Rightarrow> ([GenerateContent p], Raise e)
      | Inr (Inr t) \<Rightarrow> ([GenerateContent p], Return t))"
  by (simp add: model_text_def bind_def emit_def lift_def raise_def ret_def split: sum.splits)

lemma plot_eq:
  "plot w kind labels vals title =
     ([Draw kind labels vals title],
      case draw w kind labels vals title of None \<Rightarrow> Return () | Some e \<Rightarrow> Raise e)"
  by (simp add: plot_def bind_def emit_def ret_def raise_def split: option.splits)

lemma viz_setup_eq:
  "viz_setup w = (if genai_installed w \<and> \<not> key_missing w then ret () else raise file_kw_error)"
  by (simp add: viz_setup_def import_genai_def file_kw_error_def)

lemma viz_text_to_process_eq:
  "viz_text_to_process w input_data is_csv =
     (if is_csv
      then (case read_csv w input_data of
              Inl e \<Rightarrow> raise file_kw_error
            | Inr df \<Rightarrow> ret (csv_description (fst df) (snd df)))
      else ret input_data)"
  by (simp add: viz_text_to_process_def lift_def split: sum.splits)

section \<open>Observations on traces\<close>

lemma stdout_of_append [simp]: "stdout_of (a @ b) = stdout_of a @ stdout_of b"
  by (simp add: stdout_of_def)

lemma stderr_of_append [simp]: "stderr_of (a @ b) = stderr_of a @ stderr_of b"
  by (simp add: stderr_of_def)

lemma model_calls_append [simp]: "model_calls (a @ b) = model_calls a @ model_calls b"
  by (simp add: model_calls_def)

lemma figure_open_after_append [simp]:
  "figure_open_after b (a @ c) = figure_open_after (figure_open_after b a) c"
  by (induction b a rule: figure_open_after.induct) simp_all

lemma stdout_of_only:
  "list_all (\<lambda>ev. \<forall>j. ev \<noteq> Stdout j) tr \<Longrightarrow> stdout_of tr = []"
  by (induction tr) (auto simp: stdout_of_def split: event.splits)

lemma figure_open_after_only:
  "list_all (\<lambda>ev. ev \<noteq> FigureOpen \<and> ev \<noteq> FigureClose) tr \<Longrightarrow> figure_open_after b tr = b"
  by (induction b tr rule: figure_open_after.induct) simp_all

section \<open>Every event of a stage satisfies a predicate\<close>

lemma only_ret: "only Q (ret v)"
  and only_raise: "only Q (raise e)"
  and only_lift: "only Q (lift r)"
  by (simp_all add: only_def)

lemma only_emit: "Q ev \<Longrightarrow> only Q (emit ev)"
  by (simp add: only_def emit_def)

lemma only_bind: "only Q m \<Longrightarrow> (\<And>v. only Q (f v)) \<Longrightarrow> only Q (bind m f)"
  by (simp add: only_def bind_proj split: result.splits)

lemma only_try:
  "only Q m \<Longrightarrow> (\<And>e k. h e = Some k \<Longrightarrow> only Q k) \<Longrightarrow> only Q (try_except m h)"
  by (simp add: only_def try_except_proj split: result.splits option.splits)

lemma only_if: "(c \<Longrightarrow> only Q a) \<Longrightarrow> (\<not> c \<Longrightarrow> only Q b) \<Longrightarrow> only Q (if c then a else b)"
  by simp

lemma only_model_text: "Q (GenerateContent p) \<Longrightarrow> only Q (model_text w n p)"
  by (simp add: only_def model_text_eq split: sum.splits)

lemma only_loads: "only Q (loads w s)"
  by (simp add: loads_def only_raise only_ret split: sum.splits)

lemma only_plot: "Q (Draw k l v t) \<Longrightarrow> only Q (plot w k l v t)"
  by (simp add: only_def plot_eq)

lemma only_try_stage1:
  assumes "only Q m" "\<And>j. Q (Stderr j)"
  shows "only Q (try_except m (stage1_handler raw))"
proof (rule only_try [OF assms(1)])
  fix e and k :: "'a comp"
  assume "stage1_handler raw e = Some k"
  then show "only Q k"
    by (cases e) (auto simp: stage1_handler_def only_raise only_def assms(2))
qed

lemma only_try_stage2:
  assumes "only Q m" "\<And>j. Q (Stderr j)"
  shows "only Q (try_except m (stage2_handler raw))"
proof (rule only_try [OF assms(1)])
  fix e and k :: "'a comp"
  assume "stage2_handler raw e = Some k"
  then show "only Q k"
    by (cases e) (auto simp: stage2_handler_def only_raise only_def assms(2))
qed

lemma only_viz_setup: "only Q (viz_setup w)"
  by (simp add: viz_setup_eq only_ret only_raise)

lemma only_viz_text_to_process: "only Q (viz_text_to_process w i c)"
  by (simp add: viz_text_to_process_eq only_ret only_raise split: sum.splits)

lemma only_stage1:
  assumes "\<And>j. Q (Stderr j)" "\<And>p. Q (GenerateContent p)"
  shows "only Q (stage1 w t)"
  unfolding stage1_def Let_def
  by (intro only_bind only_try_stage1 only_model_text only_loads only_lift only_ret assms)

lemma only_stage2:
  assumes "\<And>j. Q (Stderr j)" "\<And>p. Q (GenerateContent p)"
  shows "only Q (stage2 w op i)"
  unfolding stage2_def Let_def
  by (intro only_bind only_try_stage2 only_model_text only_loads only_lift only_ret assms)

lemma only_stage3:
  assumes "Q FigureOpen" "Q FigureClose" "\<And>k l v t. Q (Draw k l v t)"
  shows "only Q (stage3 w ct cd)"
  unfolding stage3_def
  by (intro only_bind only_try only_emit only_lift only_ret only_if only_plot assms)
     (auto simp: only_raise intro!: only_bind only_emit assms)

lemma only_generate_visualization:
  assumes "\<And>j. Q (Stderr j)" "\<And>p. Q (GenerateContent p)"
    "Q FigureOpen" "Q FigureClose" "\<And>k l v t. Q (Draw k l v t)"
  shows "only Q (generate_visualization w i c)"
  unfolding generate_visualization_def
  by (intro only_bind only_viz_setup only_viz_text_to_process only_stage1 only_stage2
        only_stage3 assms)

lemma generate_visualization_stdout: "stdout_of (fst (generate_visualization w i c)) = []"
proof -
  have "only (\<lambda>ev. \<forall>j. ev \<noteq> Stdout j) (generate_visualization w i c)"
    by (rule only_generate_visualization) simp_all
  then show ?thesis by (simp add: only_def stdout_of_only)
qed

section \<open>The figure\<close>

lemma stage3_closed: "\<not> figure_open_after b (fst (stage3 w ct cd))"
  by (simp add: stage3_def bind_emit plot_eq lift_def emit_def try_except_proj bind_proj
           split: sum.splits option.splits)

text \<open>The stages before the renderer neither open nor close a figure.\<close>

lemma figure_bind_quiet:
  assumes "only (\<lambda>ev. ev \<noteq> FigureOpen \<and> ev \<noteq> FigureClose) m"
    and "\<And>v. \<not> figure_open_after False (fst (f v))"
  shows "\<not> figure_open_after False (fst (bind m f))"
  using assms by (simp add: bind_proj only_def figure_open_after_only split: result.splits)

lemma generate_visualization_closed:
  "\<not> figure_open_after False (fst (generate_visualization w i c))"
  unfolding generate_visualization_def
  by (intro figure_bind_quiet only_viz_setup only_viz_text_to_process only_stage1 only_stage2
        stage3_closed) simp_all

text \<open>
  C2. After a run of the visualization script no figure is left open, however the run
  ends: a figure that \<open>plt.figure\<close> opened has been closed by \<open>plt.close\<close> on the success
  path, in the unsupported-chart-type branch and after every exception of the renderer.
\<close>

theorem figure_closed_on_every_path:
  "\<not> figure_open_after False (fst (viz_main w input_data is_csv))"
  by (simp add: viz_main_def print_result_eq python_exit_proj bind_proj
        generate_visualization_closed split: result.splits)

section \<open>How a run ends\<close>

lemma exits_reported_ret: "exits_reported (ret x)"
  by (simp add: exits_reported_def)

lemma exits_reported_raise: "exits_reported (raise e)"
  by (simp add: exits_reported_def)

lemma exits_reported_lift: "exits_reported (lift r)"
  by (simp add: exits_reported_def lift_def split: sum.splits)

lemma exits_reported_emit: "exits_reported (emit ev)"
  by (simp add: exits_reported_def emit_def)

lemma exits_reported_loads: "exits_reported (loads w s)"
  by (simp add: exits_reported_def loads_def split: sum.splits)

lemma exits_reported_model_text: "exits_reported (model_text w n p)"
  by (simp add: exits_reported_def model_text_eq split: sum.splits)

lemma exits_reported_plot: "exits_reported (plot w k l v t)"
  by (simp add: exits_reported_def plot_eq split: option.splits)

lemma exits_reported_bind:
  assumes "exits_reported m" "\<And>v. exits_reported (f v)"
  shows "exits_reported (bind m f)"
proof (cases "snd m")
  case (Return x)
  with assms(2) [of x] show ?thesis
    by (auto simp add: exits_reported_def bind_proj split: result.splits)
next
  case (Raise e)
  then show ?thesis by (simp add: exits_reported_def bind_proj)
next
  case (SysExit n)
  with assms(1) show ?thesis by (simp add: exits_reported_def bind_proj)
qed

lemma exits_reported_try:
  assumes "exits_reported m" "\<And>e k. h e = Some k \<Longrightarrow> exits_reported k"
  shows "exits_reported (try_except m h)"
proof (cases "snd m")
  case (Return x)
  then show ?thesis by (simp add: exits_reported_def try_except_proj)
next
  case (Raise e)
  show ?thesis
  proof (cases "h e")
    case None
    with Raise show ?thesis by (simp add: exits_reported_def try_except_proj)
  next
    case (Some k)
    with Raise assms(2) [OF Some] show ?thesis
      by (auto simp add: exits_reported_def try_except_proj split: result.splits)
  qed
next
  case (SysExit n)
  with assms(1) show ?thesis by (simp add: exits_reported_def try_except_proj)
qed

lemma exits_reported_if:
  "(c \<Longrightarrow> exits_reported a) \<Longrightarrow> (\<not> c \<Longrightarrow> exits_reported b) \<Longrightarrow>
     exits_reported (if c then a else b)"
  by simp

lemma exits_reported_try_stage1:
  assumes "exits_reported m"
  shows "exits_reported (try_except m (stage1_handler raw))"
proof (rule exits_reported_try [OF assms])
  fix e and k :: "'a comp"
  assume "stage1_handler raw e = Some k"
  then show "exits_reported k"
    by (cases e) (auto simp: stage1_handler_def exits_reported_def stderr_of_def)
qed

lemma exits_reported_try_stage2:
  assumes "exits_reported m"
  shows "exits_reported (try_except m (stage2_handler raw))"
proof (rule exits_reported_try [OF assms])
  fix e and k :: "'a comp"
  assume "stage2_handler raw e = Some k"
  then show "exits_reported k"
    by (cases e) (auto simp: stage2_handler_def exits_reported_def stderr_of_def)
qed

lemma exits_reported_viz_setup: "exits_reported (viz_setup w)"
  by (simp add: viz_setup_eq exits_reported_ret exits_reported_raise)

lemma exits_reported_viz_text_to_process: "exits_reported (viz_text_to_process w i c)"
  by (simp add: viz_text_to_process_eq exits_reported_ret exits_reported_raise split: sum.splits)

lemma exits_reported_stage1: "exits_reported (stage1 w t)"
  unfolding stage1_def Let_def
  by (intro exits_reported_bind exits_reported_try_stage1 exits_reported_model_text
        exits_reported_loads exits_reported_lift exits_reported_ret)

lemma exits_reported_stage2: "exits_reported (stage2 w op i)"
  unfolding stage2_def Let_def
  by (intro exits_reported_bind exits_reported_try_stage2 exits_reported_model_text
        exits_reported_loads)

lemma exits_reported_stage3: "exits_reported (stage3 w ct cd)"
  unfolding stage3_def
  by (intro exits_reported_bind exits_reported_try exits_reported_emit exits_reported_lift
        exits_reported_ret exits_reported_if exits_reported_plot)
     (auto simp: exits_reported_raise intro!: exits_reported_bind exits_reported_emit)

lemma exits_reported_generate_visualization: "exits_reported (generate_visualization w i c)"
  unfolding generate_visualization_def
  by (intro exits_reported_bind exits_reported_viz_setup exits_reported_viz_text_to_process
        exits_reported_stage1 exits_reported_stage2 exits_reported_stage3)

text \<open>
  The script around a function that returns the result: status 0 and the result as the
  only line on standard output when the function returns, a non-zero status, a report on
  standard error and nothing on standard output otherwise.
\<close>

lemma script_outcome:
  assumes "stdout_of (fst m) = []" "exits_reported m"
  shows "(case snd m of
            Return v \<Rightarrow>
              snd (python_exit (bind m (\<lambda>result. bind (json_dumps result []) print_stdout))) = 0
              \<and> stdout_of (fst (python_exit (bind m (\<lambda>result. bind (json_dumps result []) print_stdout)))) = [v]
          | _ \<Rightarrow>
              snd (python_exit (bind m (\<lambda>result. bind (json_dumps result []) print_stdout))) = 1
              \<and> stdout_of (fst (python_exit (bind m (\<lambda>result. bind (json_dumps result []) print_stdout)))) = []
              \<and> stderr_of (fst (python_exit (bind m (\<lambda>result. bind (json_dumps result []) print_stdout)))) \<noteq> [])"
  using assms
  by (auto simp add: print_result_eq python_exit_proj bind_proj exits_reported_def
        stdout_of_def stderr_of_def split: result.splits)

lemma viz_main_outcome:
  "(case snd (generate_visualization w i c) of
      Return v \<Rightarrow> snd (viz_main w i c) = 0 \<and> stdout_of (fst (viz_main w i c)) = [v]
    | _ \<Rightarrow> snd (viz_main w i c) = 1 \<and> stdout_of (fst (viz_main w i c)) = []
           \<and> stderr_of (fst (viz_main w i c)) \<noteq> [])"
  unfolding viz_main_def
  by (rule script_outcome [OF generate_visualization_stdout exits_reported_generate_visualization])

section \<open>The two question-answering scripts\<close>

lemma bind_pair:
  "bind (tr, Return v) f = (tr @ fst (f v), snd (f v))"
  "bind (tr, Raise e) f = (tr, Raise e)"
  "bind (tr, SysExit n) f = (tr, SysExit n)"
  by (simp_all add: bind_def split: prod.splits)

lemma try_pair:
  "try_except (tr, Return v) h = (tr, Return v)"
  "try_except (tr, SysExit n) h = (tr, SysExit n)"
  "try_except (tr, Raise e) h =
     (case h e of None \<Rightarrow> (tr, Raise e) | Some k \<Rightarrow> (tr @ fst k, snd k))"
  by (simp_all add: try_except_def split: prod.splits option.splits)

lemma lift_simps [simp]: "lift (Inl e) = raise e" "lift (Inr v) = ret v"
  by (simp_all add: lift_def)

lemma answer_question_eq:
  "answer_question w input_data question is_csv =
     (if \<not> genai_installed w then ([Stderr (error_obj module_not_found_msg)], SysExit 1)
      else if key_missing w
      then ([Stderr (error_obj ''GEMINI_API_KEY environment variable not set.'')], SysExit 1)
      else case generate_content w 0 (qa_prompt is_csv input_data question) of
             Inl e \<Rightarrow>
               ([GenerateContent (qa_prompt is_csv input_data question),
                 Stderr (error_obj (exn_str e))], SysExit 1)
           | Inr (Inl e) \<Rightarrow>
               ([GenerateContent (qa_prompt is_csv input_data question),
                 Stderr (error_obj (exn_str e))], SysExit 1)
           | Inr (Inr t) \<Rightarrow>
               ([GenerateContent (qa_prompt is_csv input_data question)],
                Return (JObject [(''answer'', JString (py_strip t))])))"
  by (simp add: answer_question_def import_genai_def model_text_eq bind_pair try_pair ret_def
        split: sum.splits)

lemma qa_main_eq:
  "qa_main w input_data question is_csv =
     (if \<not> genai_installed w then ([Stderr (error_obj module_not_found_msg)], 1)
      else if key_missing w
      then ([Stderr (error_obj ''GEMINI_API_KEY environment variable not set.'')], 1)
      else case generate_content w 0 (qa_prompt is_csv input_data question) of
             Inl e \<Rightarrow>
               ([GenerateContent (qa_prompt is_csv input_data question),
                 Stderr (error_obj (exn_str e))], 1)
           | Inr (Inl e) \<Rightarrow>
               ([GenerateContent (qa_prompt is_csv input_data question),
                 Stderr (error_obj (exn_str e))], 1)
           | Inr (Inr t) \<Rightarrow>
               ([GenerateContent (qa_prompt is_csv input_data question),
                 Stdout (JObject [(''answer'', JString (py_strip t))])], 0))"
  by (simp add: qa_main_def answer_question_eq print_result_eq bind_pair python_exit_def
        split: sum.splits)

text \<open>\<open>str.format\<close> on the template: the inserted values are not read again.\<close>

lemma prepend_Inr [simp]: "prepend s (Inr t) = Inr (s @ t)"
  by (simp add: prepend_def)

lemma format_field_text:
  "format_field [''text'' \<mapsto> t, ''question'' \<mapsto> q] ''text'' = Inr t"
  "format_field [''text'' \<mapsto> t, ''question'' \<mapsto> q] ''question'' = Inr q"
  by (simp_all add: format_field_def)

lemma website_format:
  "py_format [''text'' \<mapsto> t, ''question'' \<mapsto> q] None website_qa_template
     = Inr (website_prompt t q)"
  by (simp add: website_qa_template_def website_prompt_def format_field_text)

lemma website_answer_question_eq:
  "website_answer_question w text question =
     (if key_missing w
      then ([Stderr (error_obj ''GEMINI_API_KEY environment variable not set.'')], SysExit 1)
      else case generate_content w 0 (website_prompt text question) of
             Inl e \<Rightarrow>
               ([GenerateContent (website_prompt text question),
                 Stderr (error_obj (exn_str e))], SysExit 1)
           | Inr (Inl e) \<Rightarrow>
               ([GenerateContent (website_prompt text question),
                 Stderr (error_obj (exn_str e))], SysExit 1)
           | Inr (Inr t) \<Rightarrow>
               ([GenerateContent (website_prompt text question)],
                Return (JObject [(''answer'', JString (py_strip t))])))"
  by (simp add: website_answer_question_def website_format model_text_eq bind_pair try_pair
        ret_def split: sum.splits)

lemma website_main_eq:
  "website_main w argv =
     (if \<not> genai_installed w
      then ([Traceback (ModuleNotFoundError (''No module named '' @ quoted ''google.generativeai''))], 1)
      else if length argv < 3
      then ([Stderr (error_obj ''Text and question not provided for Q&A.'')], 1)
      else if key_missing w
      then ([Stderr (error_obj ''GEMINI_API_KEY environment variable not set.'')], 1)
      else case generate_content w 0 (website_prompt (argv ! 1) (argv ! 2)) of
             Inl e \<Rightarrow>
               ([GenerateContent (website_prompt (argv ! 1) (argv ! 2)),
                 Stderr (error_obj (exn_str e))], 1)
           | Inr (Inl e) \<Rightarrow>
               ([GenerateContent (website_prompt (argv ! 1) (argv ! 2)),
                 Stderr (error_obj (exn_str e))], 1)
           | Inr (Inr t) \<Rightarrow>
               ([GenerateContent (website_prompt (argv ! 1) (argv ! 2)),
                 Stdout (JObject [(''answer'', JString (py_strip t))])], 0))"
  by (simp add: website_main_def website_answer_question_eq import_genai_def print_result_eq
        bind_pair python_exit_def raise_def split: sum.splits)

lemma trace_obs [simp]:
  "stdout_of [] = []" "stdout_of (Stdout j # tr) = j # stdout_of tr"
  "stdout_of (Stderr j # tr) = stdout_of tr" "stdout_of (Traceback e # tr) = stdout_of tr"
  "stdout_of (GenerateContent p # tr) = stdout_of tr"
  "stdout_of (FigureOpen # tr) = stdout_of tr" "stdout_of (FigureClose # tr) = stdout_of tr"
  "stdout_of (Draw k l v t # tr) = stdout_of tr"
  "model_calls [] = []" "model_calls (Stdout j # tr) = model_calls tr"
  "model_calls (Stderr j # tr) = model_calls tr" "model_calls (Traceback e # tr) = model_calls tr"
  "model_calls (GenerateContent p # tr) = p # model_calls tr"
  "model_calls (FigureOpen # tr) = model_calls tr" "model_calls (FigureClose # tr) = model_calls tr"
  "model_calls (Draw k l v t # tr) = model_calls tr"
  by (simp_all add: stdout_of_def model_calls_def)

section \<open>Runs in which a stage returns\<close>

lemma snd_bind_Return:
  "snd (bind m f) = Return v \<longleftrightarrow> (\<exists>x. snd m = Return x \<and> snd (f x) = Return v)"
  by (simp add: bind_proj split: result.splits)

lemma fst_bind_Return: "snd m = Return x \<Longrightarrow> fst (bind m f) = fst m @ fst (f x)"
  by (simp add: bind_proj)

lemma snd_try_Return:
  assumes "\<And>e k. h e = Some k \<Longrightarrow> snd k \<noteq> Return v"
  shows "snd (try_except m h) = Return v \<longleftrightarrow> snd m = Return v"
  using assms by (auto simp add: try_except_proj split: result.splits option.splits)

lemma snd_lift_Return: "snd (lift r) = Return v \<longleftrightarrow> r = Inr v"
  by (cases r) simp_all

lemma snd_model_text_Return:
  "snd (model_text w n p) = Return t \<longleftrightarrow> generate_content w n p = Inr (Inr t)"
  by (simp add: model_text_eq split: sum.splits)

lemma snd_loads_Return: "snd (loads w s) = Return v \<longleftrightarrow> json_loads w s = Inr v"
  by (simp add: loads_def split: sum.splits)

lemma stage1_handler_no_return: "stage1_handler raw e = Some k \<Longrightarrow> snd k \<noteq> Return v"
  by (cases e) (auto simp: stage1_handler_def)

lemma stage2_handler_no_return: "stage2_handler raw e = Some k \<Longrightarrow> snd k \<noteq> Return v"
  by (cases e) (auto simp: stage2_handler_def)

lemma stage1_Return:
  "snd (stage1 w t) = Return s1 \<longleftrightarrow>
     (\<exists>r meta. generate_content w 0 (stage1_prompt t) = Inr (Inr r)
        \<and> json_loads w (clean_output r) = Inr meta
        \<and> getitem meta ''chart_type_suggestion'' = Inr (fst s1)
        \<and> getitem meta ''optimized_prompt'' = Inr (snd s1))"
  by (auto simp add: stage1_def Let_def snd_bind_Return snd_try_Return [OF stage1_handler_no_return]
        snd_model_text_Return snd_loads_Return snd_lift_Return clean_output_def)

lemma stage1_eval:
  assumes "generate_content w 0 (stage1_prompt t) = Inr (Inr r)"
    and "json_loads w (clean_output r) = Inr meta"
    and "getitem meta ''chart_type_suggestion'' = Inr ct"
    and "getitem meta ''optimized_prompt'' = Inr op"
  shows "stage1 w t = ([GenerateContent (stage1_prompt t)], Return (ct, op))"
  using assms
  by (simp add: stage1_def Let_def model_text_eq loads_def bind_pair try_pair ret_def
        clean_output_def)

lemma stage2_Return:
  "snd (stage2 w op i) = Return cd \<longleftrightarrow>
     (\<exists>r. generate_content w 1 (stage2_prompt (fmt w op) i) = Inr (Inr r)
        \<and> json_loads w (clean_output r) = Inr cd)"
  by (auto simp add: stage2_def Let_def snd_bind_Return snd_try_Return [OF stage2_handler_no_return]
        snd_model_text_Return snd_loads_Return clean_output_def)

lemma stage2_eval:
  assumes "generate_content w 1 (stage2_prompt (fmt w op) i) = Inr (Inr r)"
    and "json_loads w (clean_output r) = Inr cd"
  shows "stage2 w op i = ([GenerateContent (stage2_prompt (fmt w op) i)], Return cd)"
  using assms
  by (simp add: stage2_def Let_def model_text_eq loads_def bind_pair try_pair ret_def
        clean_output_def)

lemma stage3_Return:
  "snd (stage3 w ct cd) = Return v \<longleftrightarrow>
     (\<exists>dps ds labels vals title kind img.
        getitem cd ''data_points'' = Inr dps \<and> py_iter dps = Inr ds
        \<and> collect ''label'' ds = Inr labels \<and> collect ''value'' ds = Inr vals
        \<and> getitem cd ''title'' = Inr title
        \<and> ct = JString kind \<and> kind \<in> set supported_chart_types
        \<and> draw w kind labels vals title = None
        \<and> savefig w labels vals title = Inr img
        \<and> v = JObject [(''image'', JString img), (''title'', title)])"
  by (auto simp add: stage3_def bind_emit plot_eq lift_def emit_def try_except_proj bind_proj
        supported_chart_types_def split: sum.splits option.splits)

lemma stage3_eval:
  assumes "getitem cd ''data_points'' = Inr dps" "py_iter dps = Inr ds"
    and "collect ''label'' ds = Inr labels" "collect ''value'' ds = Inr vals"
    and "getitem cd ''title'' = Inr title"
    and "kind \<in> set supported_chart_types"
    and "draw w kind labels vals title = None"
    and "savefig w labels vals title = Inr img"
  shows "stage3 w (JString kind) cd =
           ([FigureOpen, Draw kind labels vals title, FigureClose],
            Return (JObject [(''image'', JString img), (''title'', title)]))"
  using assms
  by (auto simp add: stage3_def bind_emit plot_eq emit_def try_pair bind_pair ret_def
        supported_chart_types_def)

lemma collect_Inr:
  "collect k ds = Inr vs \<Longrightarrow> list_all (\<lambda>d. \<exists>v. getitem d k = Inr v) ds"
  by (induction ds arbitrary: vs) (auto split: sum.splits)

text \<open>The visualization function returns exactly when every stage does.\<close>

lemma generate_visualization_Return:
  "snd (generate_visualization w i c) = Return v \<longleftrightarrow>
     (genai_installed w \<and> \<not> key_missing w \<and>
      (\<exists>t s1 cd. snd (viz_text_to_process w i c) = Return t
         \<and> snd (stage1 w t) = Return s1
         \<and> snd (stage2 w (snd s1) i) = Return cd
         \<and> snd (stage3 w (fst s1) cd) = Return v))"
  by (auto simp add: generate_visualization_def snd_bind_Return viz_setup_eq)

lemma generate_visualization_trace:
  assumes "genai_installed w" "\<not> key_missing w"
    and "snd (viz_text_to_process w i c) = Return t"
    and "snd (stage1 w t) = Return s1"
    and "snd (stage2 w (snd s1) i) = Return cd"
  shows "fst (generate_visualization w i c)
           = fst (stage1 w t) @ fst (stage2 w (snd s1) i) @ fst (stage3 w (fst s1) cd)"
proof -
  have "fst (viz_text_to_process w i c) = []"
    by (simp add: viz_text_to_process_eq split: sum.splits)
  with assms show ?thesis
    by (simp add: generate_visualization_def viz_setup_eq fst_bind_Return)
qed

lemma viz_success_shape:
  assumes "snd (generate_visualization w i c) = Return v"
  obtains t r1 meta op kind r2 chart dps ds labels vals title img where
    "genai_installed w" "\<not> key_missing w"
    "snd (viz_text_to_process w i c) = Return t"
    "generate_content w 0 (stage1_prompt t) = Inr (Inr r1)"
    "json_loads w (clean_output r1) = Inr meta"
    "getitem meta ''chart_type_suggestion'' = Inr (JString kind)"
    "getitem meta ''optimized_prompt'' = Inr op"
    "generate_content w 1 (stage2_prompt (fmt w op) i) = Inr (Inr r2)"
    "json_loads w (clean_output r2) = Inr chart"
    "getitem chart ''data_points'' = Inr dps" "py_iter dps = Inr ds"
    "collect ''label'' ds = Inr labels" "collect ''value'' ds = Inr vals"
    "getitem chart ''title'' = Inr title"
    "kind \<in> set supported_chart_types"
    "draw w kind labels vals title = None" "savefig w labels vals title = Inr img"
    "v = JObject [(''image'', JString img), (''title'', title)]"
    "fst (generate_visualization w i c) =
       [GenerateContent (stage1_prompt t), GenerateContent (stage2_prompt (fmt w op) i),
        FigureOpen, Draw kind labels vals title, FigureClose]"
proof -
  from assms obtain t s1 cd where g: "genai_installed w" "\<not> key_missing w"
    and t: "snd (viz_text_to_process w i c) = Return t"
    and s1: "snd (stage1 w t) = Return s1"
    and s2: "snd (stage2 w (snd s1) i) = Return cd"
    and s3: "snd (stage3 w (fst s1) cd) = Return v"
    unfolding generate_visualization_Return by blast
  from s1 obtain r1 meta where a: "generate_content w 0 (stage1_prompt t) = Inr (Inr r1)"
    "json_loads w (clean_output r1) = Inr meta"
    "getitem meta ''chart_type_suggestion'' = Inr (fst s1)"
    "getitem meta ''optimized_prompt'' = Inr (snd s1)"
    unfolding stage1_Return by blast
  from s2 obtain r2 where b:
    "generate_content w 1 (stage2_prompt (fmt w (snd s1)) i) = Inr (Inr r2)"
    "json_loads w (clean_output r2) = Inr cd"
    unfolding stage2_Return by blast
  from s3 obtain dps ds labels vals title kind img where d:
    "getitem cd ''data_points'' = Inr dps" "py_iter dps = Inr ds"
    "collect ''label'' ds = Inr labels" "collect ''value'' ds = Inr vals"
    "getitem cd ''title'' = Inr title"
    "fst s1 = JString kind" "kind \<in> set supported_chart_types"
    "draw w kind labels vals title = None" "savefig w labels vals title = Inr img"
    "v = JObject [(''image'', JString img), (''title'', title)]"
    unfolding stage3_Return by blast
  have e1: "stage1 w t = ([GenerateContent (stage1_prompt t)], Return (fst s1, snd s1))"
    by (rule stage1_eval [OF a])
  have e2: "stage2 w (snd s1) i =
      ([GenerateContent (stage2_prompt (fmt w (snd s1)) i)], Return cd)"
    by (rule stage2_eval [OF b])
  have e3: "stage3 w (fst s1) cd =
      ([FigureOpen, Draw kind labels vals title, FigureClose],
       Return (JObject [(''image'', JString img), (''title'', title)]))"
    unfolding d(6) by (rule stage3_eval [OF d(1-5) d(7-9)])
  have tr: "fst (generate_visualization w i c) =
       [GenerateContent (stage1_prompt t), GenerateContent (stage2_prompt (fmt w (snd s1)) i),
        FigureOpen, Draw kind labels vals title, FigureClose]"
    using generate_visualization_trace [OF g t s1 s2] by (simp add: e1 e2 e3)
  show thesis
    using that [OF g t a(1,2) a(3) [unfolded d(6)] a(4) b d(1-5) d(7-10) tr] .
qed

lemma viz_main_success:
  assumes "snd (viz_main w i c) = 0"
  obtains v where "snd (generate_visualization w i c) = Return v"
    and "fst (viz_main w i c) = fst (generate_visualization w i c) @ [Stdout v]"
proof (cases "snd (generate_visualization w i c)")
  case (Return v)
  then have "fst (viz_main w i c) = fst (generate_visualization w i c) @ [Stdout v]"
    by (simp add: viz_main_def python_exit_proj bind_proj print_result_eq)
  with Return that show ?thesis by blast
next
  case (Raise e)
  with viz_main_outcome [of w i c] assms show ?thesis by simp
next
  case (SysExit n)
  with viz_main_outcome [of w i c] assms show ?thesis by simp
qed

lemma viz_main_failure:
  assumes "\<And>v. snd (generate_visualization w i c) \<noteq> Return v"
  shows "snd (viz_main w i c) = 1 \<and> stdout_of (fst (viz_main w i c)) = []
       \<and> stderr_of (fst (viz_main w i c)) \<noteq> []"
proof (cases "snd (generate_visualization w i c)")
  case (Return v)
  with assms show ?thesis by blast
next
  case (Raise e)
  with viz_main_outcome [of w i c] show ?thesis by simp
next
  case (SysExit n)
  with viz_main_outcome [of w i c] show ?thesis by simp
qed

lemma viz_main_key_missing:
  "key_missing w \<Longrightarrow> viz_main w i c = ([Traceback file_kw_error], 1)"
  by (simp add: viz_main_def generate_visualization_def viz_setup_eq python_exit_def bind_pair
        raise_def)

section \<open>Runs in the sample environments\<close>

lemma sample_clean:
  "clean_output sample_meta_response = sample_meta_json"
  "clean_output sample_chart_json = sample_chart_json"
proof -
  have ws: \<open>list_all py_isspace ''\<newline>''\<close> "list_all py_isspace []"
    by (simp_all add: py_isspace_def)
  have m: "sample_meta_json \<noteq> []" "hd sample_meta_json = CHR ''{''"
    "last sample_meta_json = CHR ''}''"
    by (simp_all add: sample_meta_json_def)
  have c: "sample_chart_json \<noteq> []" "hd sample_chart_json = CHR ''{''"
    "last sample_chart_json = CHR ''}''"
    by (simp_all add: sample_chart_json_def)
  show "clean_output sample_meta_response = sample_meta_json"
    unfolding sample_meta_response_def
    using clean_output_fenced [OF m ws(2) ws(1) ws(1) ws(2)] by simp
  show "clean_output sample_chart_json = sample_chart_json"
    using clean_output_bare [OF c ws(2) ws(2)] by simp
qed

lemma sample_texts_differ: "sample_chart_json \<noteq> sample_meta_json"
  by (simp add: sample_chart_json_def sample_meta_json_def)

lemma sample_responses:
  "generate_content sample_world 0 p = Inr (Inr sample_meta_response)"
  "generate_content sample_world 1 p = Inr (Inr sample_chart_json)"
  by (simp_all add: sample_world_def sample_generate_def)

lemma sample_parses:
  "json_loads sample_world (clean_output sample_meta_response) = Inr sample_meta"
  "json_loads sample_world (clean_output sample_chart_json) = Inr sample_chart"
  by (simp_all add: sample_world_def sample_clean sample_loads_def sample_texts_differ)

lemma sample_stage1:
  "stage1 sample_world t =
     ([GenerateContent (stage1_prompt t)], Return (JString ''bar'', JString ''List sales per region''))"
  by (rule stage1_eval [OF sample_responses(1) sample_parses(1)]) (simp_all add: sample_meta_def)

lemma sample_stage2:
  "stage2 sample_world (JString ''List sales per region'') i =
     ([GenerateContent (stage2_prompt ''List sales per region'' i)], Return sample_chart)"
  using stage2_eval [OF sample_responses(2) sample_parses(2),
      of "JString ''List sales per region''" i]
  by (simp add: fmt_def)

lemma sample_stage3:
  "stage3 sample_world (JString ''bar'') sample_chart =
     ([FigureOpen,
       Draw ''bar'' [JString ''North'', JString ''South''] [JInt 3, JInt 5] (JString ''Sales''),
       FigureClose],
      Return (JObject [(''image'', JString ''iVBORw0KGgo=''), (''title'', JString ''Sales'')]))"
  by (rule stage3_eval [where dps = "JArray [JObject [(''label'', JString ''North''), (''value'', JInt 3),
                                (''summary'', JString ''up'')],
                       JObject [(''label'', JString ''South''), (''value'', JInt 5),
                                (''summary'', JString ''flat'')]]"
       and ds = "[JObject [(''label'', JString ''North''), (''value'', JInt 3),
                           (''summary'', JString ''up'')],
                  JObject [(''label'', JString ''South''), (''value'', JInt 5),
                           (''summary'', JString ''flat'')]]"])
     (simp_all add: sample_chart_def sample_world_def supported_chart_types_def)

lemma sample_run:
  "viz_main sample_world sample_input False =
     ([GenerateContent (stage1_prompt sample_input),
       GenerateContent (stage2_prompt ''List sales per region'' sample_input),
       FigureOpen,
       Draw ''bar'' [JString ''North'', JString ''South''] [JInt 3, JInt 5] (JString ''Sales''),
       FigureClose,
       Stdout (JObject [(''image'', JString ''iVBORw0KGgo=''), (''title'', JString ''Sales'')])],
      0)"
proof -
  have k: "genai_installed sample_world" "\<not> key_missing sample_world"
    by (simp_all add: sample_world_def key_missing_def)
  show ?thesis
    by (simp add: viz_main_def generate_visualization_def viz_setup_eq k viz_text_to_process_eq
          sample_stage1 sample_stage2 sample_stage3 bind_pair print_result_eq python_exit_def)
qed

lemma sample_keys:
  "genai_installed sample_world" "\<not> key_missing sample_world"
  "genai_installed no_key_world" "key_missing no_key_world" "api_key no_key_world = None"
  "genai_installed qa_world" "\<not> key_missing qa_world"
  "genai_installed offline_world" "\<not> key_missing offline_world"
  "genai_installed scatter_world" "\<not> key_missing scatter_world"
  by (simp_all add: sample_world_def no_key_world_def qa_world_def offline_world_def
        scatter_world_def key_missing_def)

lemma py_strip_paris: \<open>py_strip ''  Paris.\<newline>'' = ''Paris.''\<close>
  by (simp add: py_strip_def py_lstrip_def py_rstrip_def py_isspace_def)

lemma qa_world_answers: \<open>generate_content qa_world n p = Inr (Inr ''  Paris.\<newline>'')\<close>
  by (simp add: qa_world_def paris_def)

section \<open>Error reports\<close>

text \<open>
  In gemini\_qa.py every failure ends with exit status 1 after a JSON object with an
  \<open>"error"\<close> key was printed to standard error.
\<close>

lemma qa_main_failure_report:
  "snd (qa_main w i q c) \<noteq> 0 \<Longrightarrow>
     snd (qa_main w i q c) = 1 \<and> error_reports (fst (qa_main w i q c)) \<noteq> []"
  by (auto simp add: qa_main_eq error_reports_def error_obj_def split: sum.splits if_splits)

text \<open>
  C3. The claim fails in gemini\_viz.py: with the environment variable unset the run
  writes the traceback of a \<open>TypeError\<close> to standard error, exits with status 1, and no
  JSON object with an \<open>"error"\<close> key is written.
\<close>

theorem viz_missing_key_writes_traceback:
  "viz_main no_key_world sample_input False = ([Traceback file_kw_error], 1)
   \<and> error_reports (fst (viz_main no_key_world sample_input False)) = []"
  by (simp add: viz_main_key_missing sample_keys error_reports_def)

section \<open>The credential check\<close>

text \<open>
  C4. When the environment variable is unset, each of the three scripts ends with a
  non-zero exit status and its run contains no call of \<open>generate_content\<close>.
\<close>

theorem missing_key_no_model_call:
  assumes "api_key w = None"
  shows "model_calls (fst (viz_main w input_data is_csv)) = []
       \<and> snd (viz_main w input_data is_csv) \<noteq> 0
       \<and> model_calls (fst (qa_main w input_data question is_csv)) = []
       \<and> snd (qa_main w input_data question is_csv) \<noteq> 0
       \<and> model_calls (fst (website_main w argv)) = []
       \<and> snd (website_main w argv) \<noteq> 0"
proof -
  from assms have k: "key_missing w" by (simp add: key_missing_def)
  then show ?thesis
    by (simp add: viz_main_key_missing qa_main_eq website_main_eq)
qed

theorem missing_key_no_model_call_witness:
  "api_key no_key_world = None
   \<and> model_calls (fst (viz_main no_key_world sample_input False)) = []
   \<and> snd (viz_main no_key_world sample_input False) \<noteq> 0
   \<and> model_calls (fst (qa_main no_key_world sample_input ''Which region sold most?'' False)) = []
   \<and> snd (qa_main no_key_world sample_input ''Which region sold most?'' False) \<noteq> 0
   \<and> model_calls (fst (website_main no_key_world
         [''gemini_qa.py'', sample_input, ''Which region sold most?''])) = []
   \<and> snd (website_main no_key_world
         [''gemini_qa.py'', sample_input, ''Which region sold most?'']) \<noteq> 0"
  using missing_key_no_model_call [OF sample_keys(5), of sample_input False
      "''Which region sold most?''" "[''gemini_qa.py'', sample_input, ''Which region sold most?'']"]
  by (simp add: sample_keys)

section \<open>Standard output\<close>

text \<open>
  C8. In each script a run with a non-zero exit status has written nothing to standard
  output, and a run with exit status 0 has written exactly one line there.
\<close>

theorem stdout_only_on_success:
  "(snd (viz_main w input_data is_csv) \<noteq> 0
      \<longrightarrow> stdout_of (fst (viz_main w input_data is_csv)) = [])
   \<and> (snd (viz_main w input_data is_csv) = 0
      \<longrightarrow> length (stdout_of (fst (viz_main w input_data is_csv))) = 1)
   \<and> (snd (qa_main w input_data question is_csv) \<noteq> 0
      \<longrightarrow> stdout_of (fst (qa_main w input_data question is_csv)) = [])
   \<and> (snd (qa_main w input_data question is_csv) = 0
      \<longrightarrow> length (stdout_of (fst (qa_main w input_data question is_csv))) = 1)
   \<and> (snd (website_main w argv) \<noteq> 0 \<longrightarrow> stdout_of (fst (website_main w argv)) = [])
   \<and> (snd (website_main w argv) = 0
      \<longrightarrow> length (stdout_of (fst (website_main w argv))) = 1)"
proof -
  have "(snd (viz_main w input_data is_csv) \<noteq> 0
      \<longrightarrow> stdout_of (fst (viz_main w input_data is_csv)) = [])
   \<and> (snd (viz_main w input_data is_csv) = 0
      \<longrightarrow> length (stdout_of (fst (viz_main w input_data is_csv))) = 1)"
    using viz_main_outcome [of w input_data is_csv]
    by (cases "snd (generate_visualization w input_data is_csv)") simp_all
  moreover have "(snd (qa_main w input_data question is_csv) \<noteq> 0
      \<longrightarrow> stdout_of (fst (qa_main w input_data question is_csv)) = [])
   \<and> (snd (qa_main w input_data question is_csv) = 0
      \<longrightarrow> length (stdout_of (fst (qa_main w input_data question is_csv))) = 1)"
    by (simp add: qa_main_eq split: sum.splits)
  moreover have "(snd (website_main w argv) \<noteq> 0 \<longrightarrow> stdout_of (fst (website_main w argv)) = [])
   \<and> (snd (website_main w argv) = 0
      \<longrightarrow> length (stdout_of (fst (website_main w argv))) = 1)"
    by (simp add: website_main_eq split: sum.splits)
  ultimately show ?thesis by simp
qed

theorem stdout_only_on_success_witness:
  "snd (viz_main no_key_world sample_input False) \<noteq> 0
   \<and> stdout_of (fst (viz_main no_key_world sample_input False)) = []
   \<and> snd (viz_main sample_world sample_input False) = 0
   \<and> length (stdout_of (fst (viz_main sample_world sample_input False))) = 1
   \<and> snd (qa_main no_key_world sample_input ''Which region sold most?'' False) \<noteq> 0
   \<and> stdout_of (fst (qa_main no_key_world sample_input ''Which region sold most?'' False)) = []
   \<and> snd (qa_main qa_world sample_input ''Which region sold most?'' False) = 0
   \<and> length (stdout_of (fst (qa_main qa_world sample_input ''Which region sold most?'' False))) = 1"
proof -
  have f: "snd (viz_main no_key_world sample_input False) \<noteq> 0"
    by (simp add: viz_main_key_missing sample_keys)
  have s: "snd (viz_main sample_world sample_input False) = 0"
    by (simp add: sample_run)
  have qf: "snd (qa_main no_key_world sample_input ''Which region sold most?'' False) \<noteq> 0"
    by (simp add: qa_main_eq sample_keys)
  have qs: "snd (qa_main qa_world sample_input ''Which region sold most?'' False) = 0"
    by (simp add: qa_main_eq sample_keys qa_world_answers)
  show ?thesis
    using f s qf qs
      stdout_only_on_success [of no_key_world sample_input False "''Which region sold most?''" "[]"]
      stdout_only_on_success [of sample_world sample_input False "''Which region sold most?''" "[]"]
      stdout_only_on_success [of qa_world sample_input False "''Which region sold most?''" "[]"]
    by simp
qed

section \<open>The answer of the question-answering scripts\<close>

lemma py_strip_decompose:
  "\<exists>a b. t = a @ py_strip t @ b \<and> list_all py_isspace a \<and> list_all py_isspace b
         \<and> (py_strip t = [] \<or> (\<not> py_isspace (hd (py_strip t)) \<and> \<not> py_isspace (last (py_strip t))))"
proof -
  let ?u = "dropWhile py_isspace t"
  let ?s = "rev (dropWhile py_isspace (rev ?u))"
  let ?b = "rev (takeWhile py_isspace (rev ?u))"
  have s: "py_strip t = ?s" by (simp add: py_strip_def py_lstrip_def py_rstrip_def)
  have u: "?u = ?s @ ?b"
    by (metis rev_append rev_rev_ident takeWhile_dropWhile_id)
  have t: "t = takeWhile py_isspace t @ ?s @ ?b"
    using u takeWhile_dropWhile_id [of py_isspace t] by metis
  have a: "list_all py_isspace (takeWhile py_isspace t)"
    by (simp add: list_all_iff) (meson set_takeWhileD)
  have b: "list_all py_isspace ?b"
    by (simp add: list_all_iff) (meson set_takeWhileD)
  have e: "?s = [] \<or> (\<not> py_isspace (hd ?s) \<and> \<not> py_isspace (last ?s))"
  proof (cases "?s = []")
    case False
    then have d: "dropWhile py_isspace (rev ?u) \<noteq> []" by simp
    have l: "\<not> py_isspace (last ?s)"
      using d by (simp add: last_rev hd_dropWhile)
    have n: "?u \<noteq> []"
    proof
      assume "?u = []"
      then have "?s = []" by (simp only: rev.simps dropWhile.simps)
      with False show False by (simp only:)
    qed
    then have "\<not> py_isspace (hd ?u)" by (rule hd_dropWhile)
    moreover have "hd ?u = hd ?s" using u False by (metis hd_append2)
    ultimately show ?thesis using l by simp
  qed simp
  show ?thesis
    unfolding s using t a b e by blast
qed

text \<open>
  C9. A run of either question-answering script that exits with status 0 received a
  response text \<open>t\<close> from its one model call and wrote exactly one line to standard
  output, the object whose \<open>"answer"\<close> is \<open>t.strip()\<close>; and \<open>t.strip()\<close> is \<open>t\<close> without a
  leading and a trailing run of whitespace, with no whitespace left at either end.
\<close>

theorem qa_answer_is_stripped_response:
  "(snd (qa_main w input_data question is_csv) = 0 \<longrightarrow>
      (\<exists>t. generate_content w 0 (qa_prompt is_csv input_data question) = Inr (Inr t)
         \<and> stdout_of (fst (qa_main w input_data question is_csv))
             = [JObject [(''answer'', JString (py_strip t))]]))
   \<and> (snd (website_main w argv) = 0 \<longrightarrow>
      (\<exists>t. generate_content w 0 (website_prompt (argv ! 1) (argv ! 2)) = Inr (Inr t)
         \<and> stdout_of (fst (website_main w argv))
             = [JObject [(''answer'', JString (py_strip t))]]))
   \<and> (\<exists>a b. s = a @ py_strip s @ b \<and> list_all py_isspace a \<and> list_all py_isspace b
         \<and> (py_strip s = []
              \<or> (\<not> py_isspace (hd (py_strip s)) \<and> \<not> py_isspace (last (py_strip s)))))"
proof -
  have "snd (qa_main w input_data question is_csv) = 0 \<longrightarrow>
      (\<exists>t. generate_content w 0 (qa_prompt is_csv input_data question) = Inr (Inr t)
         \<and> stdout_of (fst (qa_main w input_data question is_csv))
             = [JObject [(''answer'', JString (py_strip t))]])"
    by (simp add: qa_main_eq split: sum.splits)
  moreover have "snd (website_main w argv) = 0 \<longrightarrow>
      (\<exists>t. generate_content w 0 (website_prompt (argv ! 1) (argv ! 2)) = Inr (Inr t)
         \<and> stdout_of (fst (website_main w argv))
             = [JObject [(''answer'', JString (py_strip t))]])"
    by (simp add: website_main_eq split: sum.splits)
  ultimately show ?thesis using py_strip_decompose [of s] by blast
qed

theorem qa_answer_is_stripped_response_witness:
  "snd (qa_main qa_world ''Paris is the capital of France.'' ''What is the capital?'' False) = 0
   \<and> stdout_of (fst (qa_main qa_world ''Paris is the capital of France.''
                        ''What is the capital?'' False))
       = [JObject [(''answer'', JString ''Paris.'')]]
   \<and> snd (website_main qa_world
            [''gemini_qa.py'', ''Paris is the capital of France.'', ''What is the capital?'']) = 0
   \<and> stdout_of (fst (website_main qa_world
            [''gemini_qa.py'', ''Paris is the capital of France.'', ''What is the capital?'']))
       = [JObject [(''answer'', JString ''Paris.'')]]"
proof -
  have q: "snd (qa_main qa_world ''Paris is the capital of France.'' ''What is the capital?'' False) = 0"
    by (simp add: qa_main_eq sample_keys qa_world_answers)
  have v: "snd (website_main qa_world
            [''gemini_qa.py'', ''Paris is the capital of France.'', ''What is the capital?'']) = 0"
    by (simp add: website_main_eq sample_keys qa_world_answers)
  show ?thesis
    using q v qa_answer_is_stripped_response [of qa_world "''Paris is the capital of France.''"
        "''What is the capital?''" False
        "[''gemini_qa.py'', ''Paris is the capital of France.'', ''What is the capital?'']" "[]"]
    by (auto simp add: qa_world_answers py_strip_paris)
qed

section \<open>Braces in the input of the website script\<close>

text \<open>
  C10, as stated, fails: with the text \<open>{\<close> and the question \<open>}{\<close> the prompt is built,
  the model is called with it and the run exits with status 0.
\<close>

theorem brace_input_reaches_model:
  "website_main qa_world [''gemini_qa.py'', ''{'', ''}{'']
     = ([GenerateContent (website_prompt ''{'' ''}{''),
         Stdout (JObject [(''answer'', JString ''Paris.'')])], 0)"
  by (simp add: website_main_eq sample_keys qa_world_answers py_strip_paris)

text \<open>
  C10, amended. \<open>str.format\<close> reads the template only: for every text and question,
  with or without braces, it returns the template with the two fields replaced by them,
  and a run with the module installed, the credential set and both arguments given
  calls the model exactly once, with that prompt.
\<close>

theorem website_prompt_never_raises:
  "py_format [''text'' \<mapsto> text, ''question'' \<mapsto> question] None website_qa_template
     = Inr (website_prompt text question)
   \<and> (genai_installed w \<and> \<not> key_missing w \<and> 3 \<le> length argv \<longrightarrow>
        model_calls (fst (website_main w argv)) = [website_prompt (argv ! 1) (argv ! 2)])"
  by (simp add: website_format website_main_eq split: sum.splits)

theorem website_prompt_never_raises_witness:
  "genai_installed qa_world \<and> \<not> key_missing qa_world
   \<and> 3 \<le> length [''gemini_qa.py'', ''a {b} c'', ''{0}?'']
   \<and> model_calls (fst (website_main qa_world [''gemini_qa.py'', ''a {b} c'', ''{0}?'']))
       = [website_prompt ''a {b} c'' ''{0}?'']"
  using website_prompt_never_raises [of "''a {b} c''" "''{0}?''" qa_world
      "[''gemini_qa.py'', ''a {b} c'', ''{0}?'']"]
  by (simp add: sample_keys)

section \<open>The chart type\<close>

lemma draws_simps [simp]:
  "draws [] = []" "draws (a @ b) = draws a @ draws b"
  "draws (Stdout j # tr) = draws tr" "draws (Stderr j # tr) = draws tr"
  "draws (Traceback e # tr) = draws tr" "draws (GenerateContent p # tr) = draws tr"
  "draws (FigureOpen # tr) = draws tr" "draws (FigureClose # tr) = draws tr"
  "draws (Draw k l v t # tr) = Draw k l v t # draws tr"
  by (simp_all add: draws_def)

text \<open>
  C5. When the response to the Stage-1 call parses to a value whose
  \<open>chart_type_suggestion\<close> is a string other than \<open>bar\<close>, \<open>pie\<close> and \<open>line\<close>, the run ends
  with a non-zero exit status, something was written to standard error (a JSON report
  or the traceback of an uncaught exception) and nothing to standard output.
\<close>

theorem unsupported_chart_type_is_fatal:
  assumes "snd (viz_text_to_process w input_data is_csv) = Return t"
    and "generate_content w 0 (stage1_prompt t) = Inr (Inr r)"
    and "json_loads w (clean_output r) = Inr meta"
    and "getitem meta ''chart_type_suggestion'' = Inr (JString ct)"
    and "ct \<notin> set supported_chart_types"
  shows "snd (viz_main w input_data is_csv) \<noteq> 0
       \<and> stdout_of (fst (viz_main w input_data is_csv)) = []
       \<and> stderr_of (fst (viz_main w input_data is_csv)) \<noteq> []"
proof -
  have "snd (generate_visualization w input_data is_csv) \<noteq> Return v" for v
  proof
    assume "snd (generate_visualization w input_data is_csv) = Return v"
    then obtain t' r' meta' kind where
      "snd (viz_text_to_process w input_data is_csv) = Return t'"
      "generate_content w 0 (stage1_prompt t') = Inr (Inr r')"
      "json_loads w (clean_output r') = Inr meta'"
      "getitem meta' ''chart_type_suggestion'' = Inr (JString kind)"
      "kind \<in> set supported_chart_types"
      by (rule viz_success_shape)
    with assms show False by simp
  qed
  from viz_main_failure [OF this] show ?thesis by simp
qed

lemma scatter_facts:
  "snd (viz_text_to_process scatter_world sample_input False) = Return sample_input"
  "generate_content scatter_world 0 (stage1_prompt sample_input) = Inr (Inr sample_meta_response)"
  "json_loads scatter_world (clean_output sample_meta_response) = Inr scatter_meta"
  "getitem scatter_meta ''chart_type_suggestion'' = Inr (JString ''scatter'')"
  "''scatter'' \<notin> set supported_chart_types"
  by (simp_all add: viz_text_to_process_eq scatter_world_def sample_world_def
        sample_generate_def scatter_loads_def sample_clean scatter_meta_def
        supported_chart_types_def)

theorem unsupported_chart_type_is_fatal_witness:
  "getitem scatter_meta ''chart_type_suggestion'' = Inr (JString ''scatter'')
   \<and> ''scatter'' \<notin> set supported_chart_types
   \<and> snd (viz_main scatter_world sample_input False) \<noteq> 0
   \<and> stdout_of (fst (viz_main scatter_world sample_input False)) = []
   \<and> stderr_of (fst (viz_main scatter_world sample_input False)) \<noteq> []"
  using unsupported_chart_type_is_fatal [OF scatter_facts] scatter_facts(4,5) by simp

section \<open>When the orchestrator fails\<close>

text \<open>
  C6, as stated, fails: in an environment with the credential set, in which every text
  parses to an object that has all the expected keys, a model call that raises makes the
  run fail.
\<close>

theorem failure_without_listed_cause:
  "viz_main offline_world sample_input False
     = ([GenerateContent (stage1_prompt sample_input), Traceback file_kw_error], 1)
   \<and> \<not> key_missing offline_world
   \<and> json_loads offline_world = always_parses
   \<and> getitem complete_obj ''chart_type_suggestion'' = Inr (JString ''bar'')
   \<and> getitem complete_obj ''optimized_prompt'' = Inr (JString ''List sales per region'')
   \<and> getitem complete_obj ''title'' = Inr (JString ''Sales'')
   \<and> getitem complete_obj ''data_points''
       = Inr (JArray [JObject [(''label'', JString ''North''), (''value'', JInt 3)]])"
proof -
  have g: "generate_content offline_world 0 p = Inl (OtherError ''503 Service Unavailable'')" for p
    by (simp add: offline_world_def unavailable_def)
  have "stage1 offline_world sample_input
          = ([GenerateContent (stage1_prompt sample_input)], Raise file_kw_error)"
    by (simp add: stage1_def model_text_eq g try_pair stage1_handler_def bind_pair raise_def)
  then have "viz_main offline_world sample_input False
     = ([GenerateContent (stage1_prompt sample_input), Traceback file_kw_error], 1)"
    by (simp add: viz_main_def generate_visualization_def viz_setup_eq sample_keys
          viz_text_to_process_eq bind_pair python_exit_def)
  then show ?thesis
    by (simp add: sample_keys complete_obj_def) (simp add: offline_world_def)
qed

lemma collect_list_all2:
  "collect k ds = Inr vs \<longleftrightarrow> list_all2 (\<lambda>d v. getitem d k = Inr v) ds vs"
proof (induction ds arbitrary: vs)
  case Nil
  then show ?case by auto
next
  case (Cons d ds)
  show ?case
    by (cases vs) (auto simp add: Cons.IH [symmetric] split: sum.splits)
qed

lemma viz_text_to_process_Return:
  "snd (viz_text_to_process w i c) = Return t \<longleftrightarrow>
     (if c then \<exists>df. read_csv w i = Inr df \<and> t = csv_description (fst df) (snd df)
      else t = i)"
  by (auto simp add: viz_text_to_process_eq split: sum.splits)

text \<open>A run in which every step succeeds, written out.\<close>

lemma viz_returns_if:
  assumes "genai_installed w" "\<not> key_missing w"
    and "if c then \<exists>df. read_csv w i = Inr df \<and> t = csv_description (fst df) (snd df) else t = i"
    and \<open>generate_content w 0 (meta_prompt_system @ ''\<newline>TEXT: '' @ t) = Inr (Inr r1)\<close>
    and "json_loads w (clean_output r1) = Inr meta"
    and "getitem meta ''chart_type_suggestion'' = Inr (JString kind)"
    and "getitem meta ''optimized_prompt'' = Inr op"
    and \<open>generate_content w 1
              (data_extraction_system @ ''\<newline>PROMPT: ''
               @ (case op of JString s \<Rightarrow> s | _ \<Rightarrow> py_str w op)
               @ ''\<newline>TEXT/DATA: '' @ i) = Inr (Inr r2)\<close>
    and "json_loads w (clean_output r2) = Inr chart"
    and "getitem chart ''data_points'' = Inr dps" "py_iter dps = Inr ds"
    and "list_all2 (\<lambda>d l. getitem d ''label'' = Inr l) ds labels"
    and "list_all2 (\<lambda>d x. getitem d ''value'' = Inr x) ds vals"
    and "getitem chart ''title'' = Inr title"
    and "kind = ''bar'' \<or> kind = ''pie'' \<or> kind = ''line''"
    and "draw w kind labels vals title = None"
    and "savefig w labels vals title = Inr img"
  shows "snd (generate_visualization w i c)
           = Return (JObject [(''image'', JString img), (''title'', title)])"
proof -
  have t: "snd (viz_text_to_process w i c) = Return t"
    using assms(3) by (simp add: viz_text_to_process_Return)
  have p1: "generate_content w 0 (stage1_prompt t) = Inr (Inr r1)"
    using assms(4) by (simp add: stage1_prompt_def)
  have p2: "generate_content w 1 (stage2_prompt (fmt w op) i) = Inr (Inr r2)"
    using assms(8) by (simp add: stage2_prompt_def fmt_def)
  have s1: "snd (stage1 w t) = Return (JString kind, op)"
    using stage1_eval [OF p1 assms(5,6,7)] by simp
  have s2: "snd (stage2 w op i) = Return chart"
    using stage2_eval [OF p2 assms(9)] by simp
  have k: "kind \<in> set supported_chart_types"
    using assms(15) by (auto simp add: supported_chart_types_def)
  have l: "collect ''label'' ds = Inr labels" "collect ''value'' ds = Inr vals"
    using assms(12,13) by (simp_all add: collect_list_all2)
  have s3: "snd (stage3 w (JString kind) chart)
              = Return (JObject [(''image'', JString img), (''title'', title)])"
    using stage3_eval [OF assms(10,11) l assms(14) k assms(16,17)] by simp
  show ?thesis
    unfolding generate_visualization_Return
    using assms(1,2) t s1 s2 s3
    by (intro conjI exI [of _ t] exI [of _ "(JString kind, op)"] exI [of _ chart]) simp_all
qed

lemma viz_returns_only_if:
  assumes "snd (generate_visualization w i c) = Return v"
  obtains t r1 meta kind op r2 chart dps ds labels vals title img where
    "genai_installed w" "\<not> key_missing w"
    "if c then \<exists>df. read_csv w i = Inr df \<and> t = csv_description (fst df) (snd df) else t = i"
    \<open>generate_content w 0 (meta_prompt_system @ ''\<newline>TEXT: '' @ t) = Inr (Inr r1)\<close>
    "json_loads w (clean_output r1) = Inr meta"
    "getitem meta ''chart_type_suggestion'' = Inr (JString kind)"
    "getitem meta ''optimized_prompt'' = Inr op"
    \<open>generate_content w 1
       (data_extraction_system @ ''\<newline>PROMPT: ''
        @ (case op of JString s \<Rightarrow> s | _ \<Rightarrow> py_str w op)
        @ ''\<newline>TEXT/DATA: '' @ i) = Inr (Inr r2)\<close>
    "json_loads w (clean_output r2) = Inr chart"
    "getitem chart ''data_points'' = Inr dps" "py_iter dps = Inr ds"
    "list_all2 (\<lambda>d l. getitem d ''label'' = Inr l) ds labels"
    "list_all2 (\<lambda>d x. getitem d ''value'' = Inr x) ds vals"
    "getitem chart ''title'' = Inr title"
    "kind = ''bar'' \<or> kind = ''pie'' \<or> kind = ''line''"
    "draw w kind labels vals title = None"
    "savefig w labels vals title = Inr img"
    "v = JObject [(''image'', JString img), (''title'', title)]"
    \<open>fst (generate_visualization w i c) =
       [GenerateContent (meta_prompt_system @ ''\<newline>TEXT: '' @ t),
        GenerateContent (data_extraction_system @ ''\<newline>PROMPT: ''
          @ (case op of JString s \<Rightarrow> s | _ \<Rightarrow> py_str w op)
          @ ''\<newline>TEXT/DATA: '' @ i),
        FigureOpen, Draw kind labels vals title, FigureClose]\<close>
proof -
  from assms obtain t r1 meta op kind r2 chart dps ds labels vals title img where f:
    "genai_installed w" "\<not> key_missing w"
    "snd (viz_text_to_process w i c) = Return t"
    "generate_content w 0 (stage1_prompt t) = Inr (Inr r1)"
    "json_loads w (clean_output r1) = Inr meta"
    "getitem meta ''chart_type_suggestion'' = Inr (JString kind)"
    "getitem meta ''optimized_prompt'' = Inr op"
    "generate_content w 1 (stage2_prompt (fmt w op) i) = Inr (Inr r2)"
    "json_loads w (clean_output r2) = Inr chart"
    "getitem chart ''data_points'' = Inr dps" "py_iter dps = Inr ds"
    "collect ''label'' ds = Inr labels" "collect ''value'' ds = Inr vals"
    "getitem chart ''title'' = Inr title"
    "kind \<in> set supported_chart_types"
    "draw w kind labels vals title = None" "savefig w labels vals title = Inr img"
    "v = JObject [(''image'', JString img), (''title'', title)]"
    "fst (generate_visualization w i c) =
       [GenerateContent (stage1_prompt t), GenerateContent (stage2_prompt (fmt w op) i),
        FigureOpen, Draw kind labels vals title, FigureClose]"
    by (rule viz_success_shape)
  have e3: "if c then \<exists>df. read_csv w i = Inr df \<and> t = csv_description (fst df) (snd df) else t = i"
    using f(3) by (simp only: viz_text_to_process_Return)
  have p1: \<open>stage1_prompt t = meta_prompt_system @ ''\<newline>TEXT: '' @ t\<close>
    by (simp add: stage1_prompt_def)
  have p2: \<open>stage2_prompt (fmt w op) i =
       data_extraction_system @ ''\<newline>PROMPT: ''
        @ (case op of JString s \<Rightarrow> s | _ \<Rightarrow> py_str w op)
        @ ''\<newline>TEXT/DATA: '' @ i\<close>
    by (simp add: stage2_prompt_def fmt_def)
  have e12: "list_all2 (\<lambda>d l. getitem d ''label'' = Inr l) ds labels"
    "list_all2 (\<lambda>d x. getitem d ''value'' = Inr x) ds vals"
    using f(12,13) by (simp_all only: collect_list_all2)
  have e15: "kind = ''bar'' \<or> kind = ''pie'' \<or> kind = ''line''"
    using f(15) by (simp add: supported_chart_types_def)
  show thesis
    by (rule that [OF f(1,2) e3 f(4) [unfolded p1] f(5,6,7) f(8) [unfolded p2] f(9,10,11) e12
          f(14) e15 f(16,17,18) f(19) [unfolded p1 p2]])
qed

lemma viz_main_exit_zero:
  "snd (viz_main w i c) = 0 \<longleftrightarrow> (\<exists>v. snd (generate_visualization w i c) = Return v)"
  using viz_main_outcome [of w i c]
  by (cases "snd (generate_visualization w i c)") simp_all

text \<open>
  C6, amended. The run of the visualization script exits with status 0 exactly when
  the module is installed, the credential is set, the CSV (if any) is read, both model
  calls return a text that is valid JSON after fence stripping, every expected key is
  read from the parsed values (\<open>chart_type_suggestion\<close> and \<open>optimized_prompt\<close> from the
  first, \<open>title\<close> and \<open>data_points\<close> from the second, \<open>label\<close> and \<open>value\<close> from every data
  point), the chart type is the string \<open>bar\<close>, \<open>pie\<close> or \<open>line\<close>, and neither plotting nor
  saving the figure raises. In every other case, so in particular when the credential
  is missing, a response is not valid JSON or an expected key is absent, the run exits
  with status 1 after writing to standard error and writes nothing to standard output.
\<close>

theorem orchestrator_failure_causes:
  \<open>(snd (viz_main w input_data is_csv) = 0 \<longleftrightarrow>
      genai_installed w \<and> \<not> key_missing w
      \<and> (\<exists>t r1 meta kind op r2 chart dps ds labels vals title img.
            (if is_csv
             then \<exists>df. read_csv w input_data = Inr df \<and> t = csv_description (fst df) (snd df)
             else t = input_data)
          \<and> generate_content w 0 (meta_prompt_system @ ''\<newline>TEXT: '' @ t) = Inr (Inr r1)
          \<and> json_loads w (clean_output r1) = Inr meta
          \<and> getitem meta ''chart_type_suggestion'' = Inr (JString kind)
          \<and> getitem meta ''optimized_prompt'' = Inr op
          \<and> generate_content w 1
               (data_extraction_system @ ''\<newline>PROMPT: ''
                @ (case op of JString s \<Rightarrow> s | _ \<Rightarrow> py_str w op)
                @ ''\<newline>TEXT/DATA: '' @ input_data) = Inr (Inr r2)
          \<and> json_loads w (clean_output r2) = Inr chart
          \<and> getitem chart ''data_points'' = Inr dps
          \<and> py_iter dps = Inr ds
          \<and> list_all2 (\<lambda>d l. getitem d ''label'' = Inr l) ds labels
          \<and> list_all2 (\<lambda>d x. getitem d ''value'' = Inr x) ds vals
          \<and> getitem chart ''title'' = Inr title
          \<and> (kind = ''bar'' \<or> kind = ''pie'' \<or> kind = ''line'')
          \<and> draw w kind labels vals title = None
          \<and> savefig w labels vals title = Inr img))
   \<and> (snd (viz_main w input_data is_csv) \<noteq> 0 \<longrightarrow>
        snd (viz_main w input_data is_csv) = 1
      \<and> stderr_of (fst (viz_main w input_data is_csv)) \<noteq> []
      \<and> stdout_of (fst (viz_main w input_data is_csv)) = [])\<close>
proof (rule conjI, goal_cases)
  case 1
  show ?case
  proof (rule iffI, goal_cases)
      case 1
      then obtain v where "snd (generate_visualization w input_data is_csv) = Return v"
        unfolding viz_main_exit_zero ..
      then obtain t r1 meta kind op r2 chart dps ds labels vals title img where f:
        "genai_installed w" "\<not> key_missing w"
        "if is_csv
         then \<exists>df. read_csv w input_data = Inr df \<and> t = csv_description (fst df) (snd df)
         else t = input_data"
        \<open>generate_content w 0 (meta_prompt_system @ ''\<newline>TEXT: '' @ t) = Inr (Inr r1)\<close>
        "json_loads w (clean_output r1) = Inr meta"
        "getitem meta ''chart_type_suggestion'' = Inr (JString kind)"
        "getitem meta ''optimized_prompt'' = Inr op"
        \<open>generate_content w 1
           (data_extraction_system @ ''\<newline>PROMPT: ''
            @ (case op of JString s \<Rightarrow> s | _ \<Rightarrow> py_str w op)
            @ ''\<newline>TEXT/DATA: '' @ input_data) = Inr (Inr r2)\<close>
        "json_loads w (clean_output r2) = Inr chart"
        "getitem chart ''data_points'' = Inr dps" "py_iter dps = Inr ds"
        "list_all2 (\<lambda>d l. getitem d ''label'' = Inr l) ds labels"
        "list_all2 (\<lambda>d x. getitem d ''value'' = Inr x) ds vals"
        "getitem chart ''title'' = Inr title"
        "kind = ''bar'' \<or> kind = ''pie'' \<or> kind = ''line''"
        "draw w kind labels vals title = None"
        "savefig w labels vals title = Inr img"
        "v = JObject [(''image'', JString img), (''title'', title)]"
        \<open>fst (generate_visualization w input_data is_csv) =
           [GenerateContent (meta_prompt_system @ ''\<newline>TEXT: '' @ t),
            GenerateContent (data_extraction_system @ ''\<newline>PROMPT: ''
              @ (case op of JString s \<Rightarrow> s | _ \<Rightarrow> py_str w op)
              @ ''\<newline>TEXT/DATA: '' @ input_data),
            FigureOpen, Draw kind labels vals title, FigureClose]\<close>
        by (rule viz_returns_only_if)
      show ?case
        apply (intro conjI f(1) f(2))
        apply (rule exI [of _ t], rule exI [of _ r1], rule exI [of _ meta], rule exI [of _ kind],
            rule exI [of _ op], rule exI [of _ r2], rule exI [of _ chart], rule exI [of _ dps],
            rule exI [of _ ds], rule exI [of _ labels], rule exI [of _ vals],
            rule exI [of _ title], rule exI [of _ img])
        apply (intro conjI f(3-17))
        done
  next
      case 2
      then have "\<exists>v. snd (generate_visualization w input_data is_csv) = Return v"
        by (elim conjE exE) (rule exI, rule viz_returns_if)
      then show ?case unfolding viz_main_exit_zero .
  qed
next
  case 2
  show ?case
  proof (rule impI, goal_cases)
    case 1
    then have "snd (generate_visualization w input_data is_csv) \<noteq> Return v" for v
      unfolding viz_main_exit_zero by simp
    from viz_main_failure [OF this] show ?case by simp
  qed
qed

theorem orchestrator_failure_causes_witness:
  "snd (viz_main sample_world sample_input False) = 0
   \<and> genai_installed sample_world \<and> \<not> key_missing sample_world
   \<and> snd (viz_main no_key_world sample_input False) = 1
   \<and> stderr_of (fst (viz_main no_key_world sample_input False)) \<noteq> []
   \<and> stdout_of (fst (viz_main no_key_world sample_input False)) = []
   \<and> snd (viz_main no_module_world sample_input False) = 1
   \<and> snd (viz_main broken_renderer_world sample_input False) = 1
   \<and> snd (viz_main offline_world sample_input False) = 1"
proof -
  have s: "snd (viz_main sample_world sample_input False) = 0"
    by (simp add: sample_run)
  note e = iffD1 [OF orchestrator_failure_causes [THEN conjunct1] s]
  have k: "snd (viz_main no_key_world sample_input False) \<noteq> 0"
    using orchestrator_failure_causes [THEN conjunct1, of no_key_world sample_input False]
    by (simp add: sample_keys)
  have m: "snd (viz_main no_module_world sample_input False) \<noteq> 0"
    using orchestrator_failure_causes [THEN conjunct1, of no_module_world sample_input False]
    by (simp add: no_module_world_def)
  have b: "snd (viz_main broken_renderer_world sample_input False) \<noteq> 0"
    using orchestrator_failure_causes [THEN conjunct1, of broken_renderer_world sample_input False]
    by (simp add: broken_renderer_world_def refusing_draw_def)
  have d: "snd (viz_main offline_world sample_input False) \<noteq> 0"
    using orchestrator_failure_causes [THEN conjunct1, of offline_world sample_input False]
    by (simp add: offline_world_def unavailable_def)
  note rk = orchestrator_failure_causes [THEN conjunct2, rule_format, OF k]
  note rm = orchestrator_failure_causes [THEN conjunct2, rule_format, OF m]
  note rb = orchestrator_failure_causes [THEN conjunct2, rule_format, OF b]
  note rd = orchestrator_failure_causes [THEN conjunct2, rule_format, OF d]
  show ?thesis
    by (intro conjI s e [THEN conjunct1] e [THEN conjunct2, THEN conjunct1]
          rk [THEN conjunct1] rk [THEN conjunct2, THEN conjunct1] rk [THEN conjunct2, THEN conjunct2]
          rm [THEN conjunct1] rb [THEN conjunct1] rd [THEN conjunct1])
qed

section \<open>The two stages and the renderer\<close>

text \<open>
  C7. A run with exit status 0 consists of exactly these events, in this order: the
  Stage-1 model call; the Stage-2 model call, whose prompt is the fixed instruction
  text followed by \<open>PROMPT:\<close> with the \<open>optimized_prompt\<close> of the parsed Stage-1 response
  (the string itself when it is a string) and \<open>TEXT/DATA:\<close> with the original input
  data; the opening of the figure; one chart, whose kind is the \<open>chart_type_suggestion\<close>
  of the Stage-1 response and whose labels, values and title are the \<open>label\<close> and \<open>value\<close>
  of each data point and the \<open>title\<close> of the parsed Stage-2 response; the closing of the
  figure; and the printing of the result.
\<close>

theorem two_calls_then_render:
  assumes "snd (viz_main w input_data is_csv) = 0"
  shows \<open>\<exists>t r1 meta kind op r2 chart dps ds labels vals title img.
            (if is_csv
             then \<exists>df. read_csv w input_data = Inr df \<and> t = csv_description (fst df) (snd df)
             else t = input_data)
          \<and> generate_content w 0 (meta_prompt_system @ ''\<newline>TEXT: '' @ t) = Inr (Inr r1)
          \<and> json_loads w (clean_output r1) = Inr meta
          \<and> getitem meta ''chart_type_suggestion'' = Inr (JString kind)
          \<and> getitem meta ''optimized_prompt'' = Inr op
          \<and> generate_content w 1
               (data_extraction_system @ ''\<newline>PROMPT: ''
                @ (case op of JString s \<Rightarrow> s | _ \<Rightarrow> py_str w op)
                @ ''\<newline>TEXT/DATA: '' @ input_data) = Inr (Inr r2)
          \<and> json_loads w (clean_output r2) = Inr chart
          \<and> getitem chart ''data_points'' = Inr dps
          \<and> py_iter dps = Inr ds
          \<and> list_all2 (\<lambda>d l. getitem d ''label'' = Inr l) ds labels
          \<and> list_all2 (\<lambda>d x. getitem d ''value'' = Inr x) ds vals
          \<and> getitem chart ''title'' = Inr title
          \<and> fst (viz_main w input_data is_csv) =
               [GenerateContent (meta_prompt_system @ ''\<newline>TEXT: '' @ t),
                GenerateContent (data_extraction_system @ ''\<newline>PROMPT: ''
                  @ (case op of JString s \<Rightarrow> s | _ \<Rightarrow> py_str w op)
                  @ ''\<newline>TEXT/DATA: '' @ input_data),
                FigureOpen,
                Draw kind labels vals title,
                FigureClose,
                Stdout (JObject [(''image'', JString img), (''title'', title)])]\<close>
proof -
  from assms obtain v where v: "snd (generate_visualization w input_data is_csv) = Return v"
    and m: "fst (viz_main w input_data is_csv)
              = fst (generate_visualization w input_data is_csv) @ [Stdout v]"
    by (rule viz_main_success)
  from v obtain t r1 meta kind op r2 chart dps ds labels vals title img where f:
    "if is_csv
     then \<exists>df. read_csv w input_data = Inr df \<and> t = csv_description (fst df) (snd df)
     else t = input_data"
    \<open>generate_content w 0 (meta_prompt_system @ ''\<newline>TEXT: '' @ t) = Inr (Inr r1)\<close>
    "json_loads w (clean_output r1) = Inr meta"
    "getitem meta ''chart_type_suggestion'' = Inr (JString kind)"
    "getitem meta ''optimized_prompt'' = Inr op"
    \<open>generate_content w 1
       (data_extraction_system @ ''\<newline>PROMPT: ''
        @ (case op of JString s \<Rightarrow> s | _ \<Rightarrow> py_str w op)
        @ ''\<newline>TEXT/DATA: '' @ input_data) = Inr (Inr r2)\<close>
    "json_loads w (clean_output r2) = Inr chart"
    "getitem chart ''data_points'' = Inr dps" "py_iter dps = Inr ds"
    "list_all2 (\<lambda>d l. getitem d ''label'' = Inr l) ds labels"
    "list_all2 (\<lambda>d x. getitem d ''value'' = Inr x) ds vals"
    "getitem chart ''title'' = Inr title"
    and r: "v = JObject [(''image'', JString img), (''title'', title)]"
    and tr: \<open>fst (generate_visualization w input_data is_csv) =
       [GenerateContent (meta_prompt_system @ ''\<newline>TEXT: '' @ t),
        GenerateContent (data_extraction_system @ ''\<newline>PROMPT: ''
          @ (case op of JString s \<Rightarrow> s | _ \<Rightarrow> py_str w op)
          @ ''\<newline>TEXT/DATA: '' @ input_data),
        FigureOpen, Draw kind labels vals title, FigureClose]\<close>
    by (rule viz_returns_only_if)
  have e: \<open>fst (viz_main w input_data is_csv) =
               [GenerateContent (meta_prompt_system @ ''\<newline>TEXT: '' @ t),
                GenerateContent (data_extraction_system @ ''\<newline>PROMPT: ''
                  @ (case op of JString s \<Rightarrow> s | _ \<Rightarrow> py_str w op)
                  @ ''\<newline>TEXT/DATA: '' @ input_data),
                FigureOpen,
                Draw kind labels vals title,
                FigureClose,
                Stdout (JObject [(''image'', JString img), (''title'', title)])]\<close>
    unfolding m tr r by simp
  show ?thesis
    apply (rule exI [of _ t], rule exI [of _ r1], rule exI [of _ meta], rule exI [of _ kind],
        rule exI [of _ op], rule exI [of _ r2], rule exI [of _ chart], rule exI [of _ dps],
        rule exI [of _ ds], rule exI [of _ labels], rule exI [of _ vals],
        rule exI [of _ title], rule exI [of _ img])
    apply (intro conjI f e)
    done
qed

theorem two_calls_then_render_witness:
  \<open>snd (viz_main sample_world sample_input False) = 0
   \<and> fst (viz_main sample_world sample_input False) =
       [GenerateContent (meta_prompt_system @ ''\<newline>TEXT: '' @ sample_input),
        GenerateContent (data_extraction_system @ ''\<newline>PROMPT: List sales per region''
          @ ''\<newline>TEXT/DATA: '' @ sample_input),
        FigureOpen,
        Draw ''bar'' [JString ''North'', JString ''South''] [JInt 3, JInt 5] (JString ''Sales''),
        FigureClose,
        Stdout (JObject [(''image'', JString ''iVBORw0KGgo=''), (''title'', JString ''Sales'')])]\<close>
proof -
  have s: "snd (viz_main sample_world sample_input False) = 0"
    by (simp add: sample_run)
  from two_calls_then_render [OF s] obtain t r1 meta kind op r2 chart dps ds labels vals title img
    where f: "t = sample_input"
      \<open>generate_content sample_world 0 (meta_prompt_system @ ''\<newline>TEXT: '' @ t) = Inr (Inr r1)\<close>
      "json_loads sample_world (clean_output r1) = Inr meta"
      "getitem meta ''chart_type_suggestion'' = Inr (JString kind)"
      "getitem meta ''optimized_prompt'' = Inr op"
      \<open>generate_content sample_world 1
         (data_extraction_system @ ''\<newline>PROMPT: ''
          @ (case op of JString s \<Rightarrow> s | _ \<Rightarrow> py_str sample_world op)
          @ ''\<newline>TEXT/DATA: '' @ sample_input) = Inr (Inr r2)\<close>
      "json_loads sample_world (clean_output r2) = Inr chart"
      "getitem chart ''data_points'' = Inr dps" "py_iter dps = Inr ds"
      "list_all2 (\<lambda>d l. getitem d ''label'' = Inr l) ds labels"
      "list_all2 (\<lambda>d x. getitem d ''value'' = Inr x) ds vals"
      "getitem chart ''title'' = Inr title"
      \<open>fst (viz_main sample_world sample_input False) =
         [GenerateContent (meta_prompt_system @ ''\<newline>TEXT: '' @ t),
          GenerateContent (data_extraction_system @ ''\<newline>PROMPT: ''
            @ (case op of JString s \<Rightarrow> s | _ \<Rightarrow> py_str sample_world op)
            @ ''\<newline>TEXT/DATA: '' @ sample_input),
          FigureOpen,
          Draw kind labels vals title,
          FigureClose,
          Stdout (JObject [(''image'', JString img), (''title'', title)])]\<close>
    by auto
  from f(2) have r1: "r1 = sample_meta_response"
    by (simp add: sample_world_def sample_generate_def)
  from f(3) have meta: "meta = sample_meta" by (simp add: r1 sample_parses)
  from f(4,5) have k: "kind = ''bar''" "op = JString ''List sales per region''"
    by (simp_all add: meta sample_meta_def)
  from f(6) have r2: "r2 = sample_chart_json"
    by (simp add: sample_world_def sample_generate_def)
  from f(7) have chart: "chart = sample_chart" by (simp add: r2 sample_parses)
  from f(8,12) have d: "title = JString ''Sales''"
    "dps = JArray [JObject [(''label'', JString ''North''), (''value'', JInt 3),
                            (''summary'', JString ''up'')],
                   JObject [(''label'', JString ''South''), (''value'', JInt 5),
                            (''summary'', JString ''flat'')]]"
    by (auto simp add: chart sample_chart_def)
  from f(9) have ds: "ds = [JObject [(''label'', JString ''North''), (''value'', JInt 3),
                            (''summary'', JString ''up'')],
                   JObject [(''label'', JString ''South''), (''value'', JInt 5),
                            (''summary'', JString ''flat'')]]"
    by (auto simp add: d)
  from f(10,11) have l: "labels = [JString ''North'', JString ''South'']" "vals = [JInt 3, JInt 5]"
    by (auto simp add: ds list_all2_Cons1)
  have i: "img = ''iVBORw0KGgo=''"
    using f(13) by (simp add: sample_run)
  show ?thesis
    using s f(13) by (simp add: f(1) k d l i)
qed

end
